theory Spec2Isabelle
  imports Complex_Main "HOL-Library.Word" "HOL-Library.Log_Nat"
begin

section \<open>Data model\<close>

text \<open>
  The program is \<^verbatim>\<open>src/src/index.js\<close>: \<^verbatim>\<open>createSignatureForRequest\<close> and
  \<^verbatim>\<open>verifySignatureOfRequest\<close>, with the helpers \<^verbatim>\<open>areUint8ArraysEqual\<close> and
  \<^verbatim>\<open>uint8ArrayToBase64\<close>. JavaScript strings are modelled as \<open>string\<close>, a
  \<^verbatim>\<open>Uint8Array\<close> as a list of 8-bit words, a JavaScript number as the rational it is
  (a finite double; the arithmetic of the program rounds each result to a double, see
  \<open>double\<close>), a plain object used as an ordered dictionary as an association list in
  insertion order, read by its first entry for a key.
\<close>

type_synonym bytes = "8 word list"

text \<open>
  What a \<^verbatim>\<open>throw\<close> carries: the \<^verbatim>\<open>TypeError\<close> of the engine on reading a property of
  \<^verbatim>\<open>null\<close>, or an exception of a library, a callback or the platform, by its message.
\<close>

datatype thrown = TypeError | Thrown string

text \<open>
  The values of the structured-field library: \<^verbatim>\<open>new Item(value, params)\<close> with a bare
  value, or with an array of items (an inner list). The parameters are a plain object in
  insertion order, or \<^verbatim>\<open>null\<close> (\<open>None\<close>): the program guards one of its reads of them
  (\<^verbatim>\<open>item.params?.name\<close>) and not the others. \<^verbatim>\<open>decodeDict\<close> gives a plain object or a
  \<^verbatim>\<open>Map\<close>; the program reads both.
\<close>

datatype bare = BString string | BNumber rat | BBoolean bool | BToken string | BBytes bytes

type_synonym params = "(string \<times> bare) list"

datatype item = Item (ivalue: bare) (iparams: "params option")

datatype member = Single item | InnerList "item list" "params option"

datatype dictionary = AsObject "(string \<times> member) list" | AsMap "(string \<times> member) list"

text \<open>
  The structured-field library (\<^verbatim>\<open>import ... from 'structured-field-values'\<close>) is not
  part of the repository: the program is a function of it. Each of its functions may
  throw.
\<close>

record codec =
  decodeDict :: "string \<Rightarrow> thrown + dictionary"
  encodeDict :: "(string \<times> member) list \<Rightarrow> thrown + string"
  encodeItem :: "item \<Rightarrow> thrown + string"

text \<open>
  The host platform: \<^verbatim>\<open>Date.now()\<close> in milliseconds, \<^verbatim>\<open>crypto.subtle.digest\<close>
  (whose promise may reject), and the implicit conversion to a string of a parameter
  value that is not a string.
\<close>

record platform =
  date_now :: int
  subtle_digest :: "string \<Rightarrow> bytes \<Rightarrow> thrown + bytes"
  coerce :: "bare \<Rightarrow> thrown + string"

text \<open>
  The error objects \<^verbatim>\<open>{type, message, context}\<close>; the context is a text, a caught
  exception, or absent.
\<close>

datatype detail = Text string | Cause thrown | Absent

record error =
  err_type :: string
  err_message :: string
  err_context :: detail

text \<open>
  How a call ends without a value: the promise resolves to \<^verbatim>\<open>err(e)\<close>, or an exception
  that nothing catches rejects it.
\<close>

datatype failure = Err error | Rejected thrown

text \<open>
  A URL as the URL standard records it; \<open>searchParams\<close> is the list of name-value pairs
  the platform parses from the query. The getters the program reads follow the standard.
\<close>

record URL =
  scheme :: string
  username :: string
  password :: string
  host :: "string option"
  port :: "string option"
  path :: string
  query :: "string option"
  fragment :: "string option"
  searchParams :: "(string \<times> string) list"

definition protocol :: "URL \<Rightarrow> string" where
  "protocol u = scheme u @ '':''"

definition hostname :: "URL \<Rightarrow> string" where
  "hostname u = (case host u of None \<Rightarrow> [] | Some h \<Rightarrow> h)"

definition host_port :: "URL \<Rightarrow> string" where
  "host_port u =
     (case host u of None \<Rightarrow> []
      | Some h \<Rightarrow> (case port u of None \<Rightarrow> h | Some p \<Rightarrow> h @ '':'' @ p))"

definition pathname :: "URL \<Rightarrow> string" where
  "pathname u = path u"

definition search :: "URL \<Rightarrow> string" where
  "search u = (case query u of None \<Rightarrow> [] | Some q \<Rightarrow> if q = [] then [] else ''?'' @ q)"

definition credentials :: "URL \<Rightarrow> string" where
  "credentials u =
     (if username u = [] \<and> password u = [] then []
      else username u @ (if password u = [] then [] else '':'' @ password u) @ ''@'')"

definition href :: "URL \<Rightarrow> string" where
  "href u =
     scheme u @ '':''
     @ (case host u of None \<Rightarrow> [] | Some h \<Rightarrow> ''//'' @ credentials u @ host_port u)
     @ path u
     @ (case query u of None \<Rightarrow> [] | Some q \<Rightarrow> ''?'' @ q)
     @ (case fragment u of None \<Rightarrow> [] | Some f \<Rightarrow> ''#'' @ f)"

text \<open>
  The request: \<open>headers\<close> is \<^verbatim>\<open>headers.get\<close> (the platform throws on a name that is not
  a header name), \<open>body\<close> is absent for \<^verbatim>\<open>null\<close> and \<^verbatim>\<open>undefined\<close>.
\<close>

record request =
  headers :: "string \<Rightarrow> thrown + string option"
  url :: URL
  http_method :: string
  body :: "bytes option"

text \<open>
  A component identifier of \<^verbatim>\<open>signatureInputs\<close> and \<^verbatim>\<open>requiredInputs\<close>: a string, or
  an object \<^verbatim>\<open>{component, parameters}\<close>.
\<close>

datatype component = Name string | Parameterized string params

text \<open>The callbacks: the promise resolves to \<^verbatim>\<open>ok(v)\<close> or \<^verbatim>\<open>err(e)\<close>, or rejects.\<close>

datatype 'a settled = Resolved_ok 'a | Resolved_err error | Rejects thrown

type_synonym sign_callback = "string \<Rightarrow> params \<Rightarrow> bytes settled"

type_synonym verify_callback = "string \<Rightarrow> params \<Rightarrow> bytes \<Rightarrow> bool settled"

record signed =
  signatureInput :: string
  signature :: string
  signatureBase :: string

section \<open>JavaScript primitives the program uses\<close>

text \<open>\<^verbatim>\<open>xs.join(sep)\<close>.\<close>

fun join :: "string \<Rightarrow> string list \<Rightarrow> string" where
  "join sep [] = []"
| "join sep [x] = x"
| "join sep (x # y # ys) = x @ sep @ join sep (y # ys)"

text \<open>\<^verbatim>\<open>s.split(c)\<close> for a separator of one character.\<close>

fun split :: "char \<Rightarrow> string \<Rightarrow> string list" where
  "split c [] = [[]]"
| "split c (x # xs) =
     (if x = c then [] # split c xs
      else (case split c xs of [] \<Rightarrow> [[x]] | p # ps \<Rightarrow> (x # p) # ps))"

text \<open>\<^verbatim>\<open>!v\<close> on a parameter value that is present.\<close>

fun falsy :: "bare \<Rightarrow> bool" where
  "falsy (BString s) = (s = [])"
| "falsy (BNumber n) = (n = 0)"
| "falsy (BBoolean b) = (\<not> b)"
| "falsy (BToken t) = False"
| "falsy (BBytes b) = False"

text \<open>\<^verbatim>\<open>a === b\<close> on parameter values: byte arrays are compared by identity.\<close>

fun strict_equal :: "bare \<Rightarrow> bare \<Rightarrow> bool" where
  "strict_equal (BBytes a) (BBytes b) = False"
| "strict_equal a b = (a = b)"

text \<open>
  Numbers are IEEE 754 doubles: the finite doubles are the rationals \<open>m * 2 ^ e\<close> with
  \<open>\<bar>m\<bar> < 2 ^ 53\<close> and \<open>- 1074 \<le> e\<close>, and an arithmetic operation gives the double
  nearest to its exact result, a tie going to the even \<open>m\<close>. \<open>round_half_even x\<close> is the
  integer nearest to \<open>x\<close>, a tie going to the even one; \<open>binade x\<close> is the \<open>e\<close> with
  \<open>2 ^ e \<le> \<bar>x\<bar> < 2 ^ (e + 1)\<close>, found from the binary lengths of numerator and
  denominator; \<open>quantum x\<close> is the distance between the doubles around \<open>x\<close> (the same
  below \<open>2 ^ - 1022\<close>); \<open>double x\<close> is the double nearest to \<open>x\<close>. Results beyond the
  largest double (\<^verbatim>\<open>Infinity\<close>) and \<^verbatim>\<open>NaN\<close> are not modelled: the program divides a
  clock reading by 1000 and subtracts a parameter value from it.
\<close>

definition round_half_even :: "rat \<Rightarrow> int" where
  "round_half_even x =
     (let f = \<lfloor>x\<rfloor>; r = x - of_int f
      in if r < 1 / 2 then f else if 1 / 2 < r then f + 1 else if even f then f else f + 1)"

definition binade :: "rat \<Rightarrow> int" where
  "binade x =
     (let (p, q) = quotient_of \<bar>x\<bar>; e = bitlen p - bitlen q
      in if 2 powi e \<le> \<bar>x\<bar> then e else e - 1)"

definition quantum :: "rat \<Rightarrow> rat" where
  "quantum x = 2 powi (max (binade x) (- 1022) - 52)"

definition double :: "rat \<Rightarrow> rat" where
  "double x = of_int (round_half_even (x / quantum x)) * quantum x"

text \<open>The string a parameter value stands for where the program needs one.\<close>

definition to_string :: "platform \<Rightarrow> bare \<Rightarrow> thrown + string" where
  "to_string P v = (case v of BString s \<Rightarrow> Inr s | _ \<Rightarrow> coerce P v)"

definition validation :: "string \<Rightarrow> string \<Rightarrow> error" where
  "validation m c = \<lparr>err_type = ''validation'', err_message = m, err_context = Text c\<rparr>"

definition caught :: "string \<Rightarrow> string \<Rightarrow> thrown \<Rightarrow> error" where
  "caught t m e = \<lparr>err_type = t, err_message = m, err_context = Cause e\<rparr>"

section \<open>createSignatureForRequest\<close>

fun component_name :: "component \<Rightarrow> string" where
  "component_name (Name n) = n"
| "component_name (Parameterized c ps) = c"

fun component_params :: "component \<Rightarrow> params" where
  "component_params (Name n) = []"
| "component_params (Parameterized c ps) = ps"

definition toItem :: "component \<Rightarrow> item" where
  "toItem input = Item (BString (component_name input)) (Some (component_params input))"

text \<open>\<^verbatim>\<open>item.params?.name\<close> (lines 87 and 455).\<close>

definition name_parameter :: "params option \<Rightarrow> bare option" where
  "name_parameter ps = (case ps of None \<Rightarrow> None | Some kvs \<Rightarrow> map_of kvs ''name'')"

text \<open>
  The \<^verbatim>\<open>@query-param\<close> and header cases are the same text in both functions
  (lines 86-117 and 454-485).
\<close>

definition name_missing :: "string \<Rightarrow> error" where
  "name_missing stringOfKey =
     validation ''Invalid signature input''
       (''Signature input is missing required parameter \"name\" in signature input for field ''
        @ stringOfKey)"

definition query_parameter_missing :: "string \<Rightarrow> string \<Rightarrow> error" where
  "query_parameter_missing name stringOfKey =
     validation (''Missing query parameter: '' @ name)
       ((''Request is missing query parameter \"'' @ name
         @ ''\" required in signature input for field '') @ stringOfKey)"

definition header_missing :: "string \<Rightarrow> string \<Rightarrow> error" where
  "header_missing name stringOfKey =
     validation (''Missing header: '' @ name)
       ((''Request is missing header \"'' @ name
         @ ''\" required in signature input for field '') @ stringOfKey)"

definition query_param_pair ::
  "platform \<Rightarrow> request \<Rightarrow> params option \<Rightarrow> string \<Rightarrow> failure + (string \<times> string)" where
  "query_param_pair P r ps stringOfKey =
     (case name_parameter ps of
        None \<Rightarrow> Inl (Err (name_missing stringOfKey))
      | Some v \<Rightarrow>
          if falsy v then Inl (Err (name_missing stringOfKey))
          else (case to_string P v of
              Inl t \<Rightarrow> Inl (Rejected t)
            | Inr name \<Rightarrow>
                (case map_of (searchParams (url r)) name of
                   None \<Rightarrow> Inl (Err (query_parameter_missing name stringOfKey))
                 | Some v \<Rightarrow> Inr (stringOfKey, v))))"

definition header_pair :: "request \<Rightarrow> string \<Rightarrow> string \<Rightarrow> failure + (string \<times> string)" where
  "header_pair r name stringOfKey =
     (case headers r name of
        Inl t \<Rightarrow> Inl (Rejected t)
      | Inr None \<Rightarrow> Inl (Err (header_missing name stringOfKey))
      | Inr (Some v) \<Rightarrow> Inr (stringOfKey, v))"

text \<open>One turn of the loop of lines 46-119.\<close>

definition create_pair ::
  "codec \<Rightarrow> platform \<Rightarrow> request \<Rightarrow> component \<Rightarrow> failure + (string \<times> string)" where
  "create_pair C P r inputName =
     (case encodeItem C (toItem inputName) of
        Inl e \<Rightarrow> Inl (Err (caught ''encoding'' ''Failed to encode signature input key'' e))
      | Inr stringOfKey \<Rightarrow>
          (let name = component_name inputName in
           if name = ''@method'' then Inr (stringOfKey, http_method r)
           else if name = ''@target-uri'' then Inr (stringOfKey, href (url r))
           else if name = ''@authority'' then Inr (stringOfKey, hostname (url r))
           else if name = ''@scheme'' then Inr (stringOfKey, butlast (protocol (url r)))
           else if name = ''@path'' then Inr (stringOfKey, pathname (url r))
           else if name = ''@query'' then
             Inr (stringOfKey, if length (search (url r)) > 0 then search (url r) else [])
           else if name = ''@query-param'' then
             query_param_pair P r (Some (component_params inputName)) stringOfKey
           else header_pair r name stringOfKey))"

fun create_pairs ::
  "codec \<Rightarrow> platform \<Rightarrow> request \<Rightarrow> component list \<Rightarrow> failure + (string \<times> string) list" where
  "create_pairs C P r [] = Inr []"
| "create_pairs C P r (inputName # rest) =
     (case create_pair C P r inputName of
        Inl e \<Rightarrow> Inl e
      | Inr pair \<Rightarrow>
          (case create_pairs C P r rest of Inl e \<Rightarrow> Inl e | Inr pairs \<Rightarrow> Inr (pair # pairs)))"

text \<open>Line 124 and line 493: \<^verbatim>\<open>pairs.map((pair) => pair.join(': ')).join('\n')\<close>.\<close>

definition base_of_pairs :: "(string \<times> string) list \<Rightarrow> string" where
  "base_of_pairs pairs = join [CHR 0x0A] (map (\<lambda>(k, v). k @ '': '' @ v) pairs)"

definition createSignatureForRequest ::
  "codec \<Rightarrow> platform \<Rightarrow> component list \<Rightarrow> string \<Rightarrow> params \<Rightarrow> request \<Rightarrow> sign_callback
     \<Rightarrow> failure + signed" where
  "createSignatureForRequest C P signatureInputs signatureLabel additionalParams r sign =
     (case encodeDict C
             [(signatureLabel, InnerList (map toItem signatureInputs) (Some additionalParams))] of
        Inl e \<Rightarrow> Inl (Err (caught ''encoding'' ''Failed to encode signature input dictionary'' e))
      | Inr stringOfSignatureInputDictionary \<Rightarrow>
     (case create_pairs C P r signatureInputs of
        Inl e \<Rightarrow> Inl e
      | Inr pairs \<Rightarrow>
     (case encodeItem C (Item (BString ''@signature-params'') (Some [])) of
        Inl t \<Rightarrow> Inl (Rejected t)
      | Inr paramsKey \<Rightarrow>
     (let base = base_of_pairs (pairs @
            [(paramsKey, drop (length signatureLabel + 1) stringOfSignatureInputDictionary)])
      in case sign base additionalParams of
           Rejects t \<Rightarrow> Inl (Err (caught ''error'' ''Failed to sign request'' t))
         | Resolved_err e \<Rightarrow> Inl (Err e)
         | Resolved_ok sig \<Rightarrow>
             (case encodeDict C [(signatureLabel, Single (Item (BBytes sig) None))] of
                Inl e \<Rightarrow> Inl (Err (caught ''encoding'' ''Failed to encode signature dictionary'' e))
              | Inr stringOfSignatureDictionary \<Rightarrow>
                  Inr \<lparr>signatureInput = stringOfSignatureInputDictionary,
                       signature = stringOfSignatureDictionary,
                       signatureBase = base\<rparr>)))))"

section \<open>verifySignatureOfRequest\<close>

text \<open>
  \<^verbatim>\<open>key in object\<close> also finds what a plain object inherits from \<^verbatim>\<open>Object.prototype\<close>.
\<close>

definition prototype_keys :: "string list" where
  "prototype_keys =
     [''constructor'', ''toString'', ''toLocaleString'', ''valueOf'', ''hasOwnProperty'',
      ''isPrototypeOf'', ''propertyIsEnumerable'', ''__proto__'', ''__defineGetter__'',
      ''__defineSetter__'', ''__lookupGetter__'', ''__lookupSetter__'']"

definition key_in :: "string \<Rightarrow> (string \<times> 'a) list \<Rightarrow> bool" where
  "key_in k kvs = (k \<in> set (map fst kvs) \<or> k \<in> set prototype_keys)"

text \<open>Lines 235-243: every item of the inner list has a string as its value.\<close>

fun string_items :: "item list \<Rightarrow> (string \<times> params option) list option" where
  "string_items [] = Some []"
| "string_items (Item (BString s) ps # rest) =
     (case string_items rest of None \<Rightarrow> None | Some xs \<Rightarrow> Some ((s, ps) # xs))"
| "string_items (Item v ps # rest) = None"

text \<open>Lines 226-245, on the entry found under the label (\<open>None\<close>: nothing, or no item).\<close>

definition input_entry ::
  "string \<Rightarrow> member option
     \<Rightarrow> error + ((string \<times> params option) list \<times> params option)" where
  "input_entry signatureLabel entry =
     (case entry of
        Some (InnerList (x # xs) ps) \<Rightarrow>
          (case string_items (x # xs) of
             None \<Rightarrow> Inl (validation ''Invalid signature input'' ''Invalid signature input'')
           | Some signatureInputItems \<Rightarrow> Inr (signatureInputItems, ps))
      | _ \<Rightarrow> Inl (validation ''Invalid signature input''
                 (''Invalid signature input for \"'' @ signatureLabel @ ''\"'')))"

text \<open>Lines 205-245.\<close>

definition parse_signature_input ::
  "codec \<Rightarrow> string \<Rightarrow> string
     \<Rightarrow> error + ((string \<times> params option) list \<times> params option)" where
  "parse_signature_input C stringOfSignatureInputDictionary signatureLabel =
     (case decodeDict C stringOfSignatureInputDictionary of
        Inl e \<Rightarrow> Inl (caught ''validation'' ''Invalid signature input'' e)
      | Inr (AsMap kvs) \<Rightarrow> input_entry signatureLabel (map_of kvs signatureLabel)
      | Inr (AsObject kvs) \<Rightarrow>
          if \<not> key_in signatureLabel kvs
          then Inl (validation ''Invalid signature input''
                 (''Signature Input is not a dictionary or does not contain \"'' @ signatureLabel
                  @ ''\" field''))
          else input_entry signatureLabel (map_of kvs signatureLabel))"

text \<open>Lines 269-278.\<close>

definition signature_entry :: "member option \<Rightarrow> error + bytes" where
  "signature_entry entry =
     (case entry of
        Some (Single (Item (BBytes providedSignature) ps)) \<Rightarrow> Inr providedSignature
      | _ \<Rightarrow> Inl (validation ''Invalid signature'' ''Invalid signature''))"

text \<open>Lines 247-278.\<close>

definition parse_signature :: "codec \<Rightarrow> string \<Rightarrow> string \<Rightarrow> error + bytes" where
  "parse_signature C stringOfSignatureDictionary signatureLabel =
     (case decodeDict C stringOfSignatureDictionary of
        Inl e \<Rightarrow> Inl (caught ''validation'' ''Invalid signature'' e)
      | Inr (AsMap kvs) \<Rightarrow> signature_entry (map_of kvs signatureLabel)
      | Inr (AsObject kvs) \<Rightarrow>
          if \<not> key_in signatureLabel kvs
          then Inl (validation ''Invalid signature''
                 (''Signature is not a dictionary or does not contain \"'' @ signatureLabel
                  @ ''\" field''))
          else signature_entry (map_of kvs signatureLabel))"

text \<open>
  Lines 282-284, the predicate of \<^verbatim>\<open>signatureInput.find\<close>: for a string, the item's
  value is the string; for an object, the value is the component and every entry of the
  object's parameters is found, strictly equal, among the item's parameters. Reading a
  parameter of an item whose parameters are \<^verbatim>\<open>null\<close> throws.
\<close>

fun found_in :: "params \<Rightarrow> string \<times> bare \<Rightarrow> bool" where
  "found_in ps (k, v) = (case map_of ps k of None \<Rightarrow> False | Some x \<Rightarrow> strict_equal x v)"

fun matches :: "component \<Rightarrow> string \<times> params option \<Rightarrow> thrown + bool" where
  "matches (Name n) (v, ps) = Inr (v = n)"
| "matches (Parameterized c parameters) (v, ps) =
     (if v \<noteq> c then Inr False
      else if parameters = [] then Inr True
      else (case ps of
          None \<Rightarrow> Inl TypeError
        | Some kvs \<Rightarrow> Inr (list_all (found_in kvs) parameters)))"

text \<open>\<^verbatim>\<open>signatureInput.find(...)\<close> of line 283 or 284, and whether it found an item.\<close>

fun find_input :: "component \<Rightarrow> (string \<times> params option) list \<Rightarrow> thrown + bool" where
  "find_input input [] = Inr False"
| "find_input input (it # rest) =
     (case matches input it of
        Inl t \<Rightarrow> Inl t
      | Inr found \<Rightarrow> if found then Inr True else find_input input rest)"

text \<open>\<^verbatim>\<open>${input}\<close> in the message of line 289.\<close>

fun input_text :: "component \<Rightarrow> string" where
  "input_text (Name n) = n"
| "input_text (Parameterized c parameters) = ''[object Object]''"

text \<open>Lines 281-292.\<close>

fun check_required_inputs ::
  "component list \<Rightarrow> (string \<times> params option) list \<Rightarrow> failure option" where
  "check_required_inputs [] signatureInputItems = None"
| "check_required_inputs (input # rest) signatureInputItems =
     (case find_input input signatureInputItems of
        Inl t \<Rightarrow> Some (Rejected t)
      | Inr found \<Rightarrow>
          if \<not> found
          then Some (Err (validation ''Invalid signature''
                 (''Missing required input field \"'' @ input_text input
                  @ ''\" in signature input'')))
          else check_required_inputs rest signatureInputItems)"

text \<open>
  Lines 296-304. Line 295, \<^verbatim>\<open>Object.entries(signatureInputDictItem.params)\<close>, throws when
  the parameters are \<^verbatim>\<open>null\<close>; see \<open>verifySignatureOfRequest\<close>.
\<close>

fun check_required_params :: "string list \<Rightarrow> params \<Rightarrow> error option" where
  "check_required_params [] signatureInputParams = None"
| "check_required_params (requiredParam # rest) signatureInputParams =
     (if \<not> key_in requiredParam signatureInputParams
      then Some (validation ''Invalid signature''
             (''Missing required parameter \"'' @ requiredParam @ ''\" in signature input''))
      else check_required_params rest signatureInputParams)"

text \<open>
  Lines 306-329. Line 322, \<^verbatim>\<open>Date.now() / 1000\<close>, is the double nearest to the quotient;
  line 323 compares the double nearest to the difference with \<^verbatim>\<open>maxAge\<close>.
\<close>

definition nowInSeconds :: "platform \<Rightarrow> rat" where
  "nowInSeconds P = double (of_int (date_now P) / 1000)"

definition check_created :: "platform \<Rightarrow> params \<Rightarrow> rat \<Rightarrow> error option" where
  "check_created P signatureInputParams maxAge =
     (let missing = Some (validation ''Invalid signature''
            ''Missing required parameter \"created\" in signature input'')
      in case map_of signatureInputParams ''created'' of
           None \<Rightarrow> missing
         | Some paramCreated \<Rightarrow>
             if falsy paramCreated then missing
             else (case paramCreated of
                 BNumber created \<Rightarrow>
                   if double (nowInSeconds P - created) > maxAge
                   then Some (validation ''Signature expired'' ''Signature expired'')
                   else None
               | _ \<Rightarrow> Some (validation ''Invalid signature''
                          ''Invalid parameter \"created\" in signature input'')))"

text \<open>Lines 520-530.\<close>

fun areUint8ArraysEqual_from :: "bytes \<Rightarrow> bytes \<Rightarrow> bool" where
  "areUint8ArraysEqual_from (x # xs) (y # ys) = (if x \<noteq> y then False else areUint8ArraysEqual_from xs ys)"
| "areUint8ArraysEqual_from xs ys = True"

definition areUint8ArraysEqual :: "bytes \<Rightarrow> bytes \<Rightarrow> bool" where
  "areUint8ArraysEqual a b = (if length a \<noteq> length b then False else areUint8ArraysEqual_from a b)"

text \<open>
  Lines 538-543: \<^verbatim>\<open>btoa\<close> of the bytes, the standard base64 alphabet with padding.
\<close>

definition base64_alphabet :: string where
  "base64_alphabet = ''ABCDEFGHIJKLMNOPQRSTUVWXYZabcdefghijklmnopqrstuvwxyz0123456789+/''"

definition base64_digit :: "int \<Rightarrow> char" where
  "base64_digit n = base64_alphabet ! nat (n mod 64)"

fun uint8ArrayToBase64 :: "bytes \<Rightarrow> string" where
  "uint8ArrayToBase64 [] = []"
| "uint8ArrayToBase64 [a] =
     (let n = uint a * 65536
      in [base64_digit (n div 262144), base64_digit (n div 4096), CHR ''='', CHR ''=''])"
| "uint8ArrayToBase64 [a, b] =
     (let n = uint a * 65536 + uint b * 256
      in [base64_digit (n div 262144), base64_digit (n div 4096), base64_digit (n div 64),
          CHR ''=''])"
| "uint8ArrayToBase64 (a # b # c # rest) =
     (let n = uint a * 65536 + uint b * 256 + uint c
      in [base64_digit (n div 262144), base64_digit (n div 4096), base64_digit (n div 64),
          base64_digit n] @ uint8ArrayToBase64 rest)"

text \<open>Lines 359-378: the first entry of the dictionary whose key is an allowed algorithm.\<close>

definition allowedDigestAlgorithms :: "string list" where
  "allowedDigestAlgorithms = [''sha-256'', ''sha-512'']"

definition entries :: "dictionary \<Rightarrow> (string \<times> member) list" where
  "entries d = (case d of AsObject kvs \<Rightarrow> kvs | AsMap kvs \<Rightarrow> kvs)"

text \<open>Lines 332-410.\<close>

definition check_content_digest ::
  "codec \<Rightarrow> platform \<Rightarrow> request \<Rightarrow> (string \<times> params option) list \<Rightarrow> failure option" where
  "check_content_digest C P r signatureInputItems =
     (case find (\<lambda>(v, ps). v = ''content-digest'') signatureInputItems of
        None \<Rightarrow> None
      | Some paramContentDigest \<Rightarrow>
     (case headers r ''content-digest'' of
        Inl t \<Rightarrow> Some (Rejected t)
      | Inr None \<Rightarrow> Some (Err (validation ''Invalid signature''
                    ''Missing required header \"content-digest\"''))
      | Inr (Some headerValueForContentDigest) \<Rightarrow>
     (case decodeDict C headerValueForContentDigest of
        Inl e \<Rightarrow> Some (Err (caught ''validation''
                    ''Invalid value for header \"content-digest\"'' e))
      | Inr dictionaryOfContentDigest \<Rightarrow>
     (let dictionaryAsObject = entries dictionaryOfContentDigest;
          providedDigestAlgorithms = map fst dictionaryAsObject;
          unsupported = ''Unsupported content-digest algorithm: ''
             @ join '', '' providedDigestAlgorithms
      in case find (\<lambda>(algorithm, digestItem). algorithm \<in> set allowedDigestAlgorithms)
              dictionaryAsObject of
           None \<Rightarrow> Some (Err (validation unsupported unsupported))
         | Some (algorithm, Single (Item (BBytes providedDigest) ps)) \<Rightarrow>
             (case subtle_digest P algorithm (case body r of None \<Rightarrow> [] | Some b \<Rightarrow> b) of
                Inl e \<Rightarrow> Some (Err (caught ''validation''
                    (''Failed to calculate digest for algorithm '' @ algorithm) e))
              | Inr calculatedDigest \<Rightarrow>
                  if \<not> areUint8ArraysEqual providedDigest calculatedDigest
                  then (let mismatch = ''Digest mismatch for algorithm '' @ algorithm
                          @ ''. Expected '' @ uint8ArrayToBase64 providedDigest
                          @ '', got '' @ uint8ArrayToBase64 calculatedDigest
                        in Some (Err (validation mismatch mismatch)))
                  else None)
         | Some (algorithm, digestItem) \<Rightarrow>
             Some (Err (validation (''Invalid digest for algorithm '' @ algorithm)
                    (''Invalid digest for algorithm '' @ algorithm)))))))"

text \<open>One turn of the loop of lines 416-487.\<close>

definition verify_pair ::
  "codec \<Rightarrow> platform \<Rightarrow> request \<Rightarrow> string \<times> params option
     \<Rightarrow> failure + (string \<times> string)" where
  "verify_pair C P r it =
     (case encodeItem C (Item (BString (fst it)) (snd it)) of
        Inl e \<Rightarrow> Inl (Err (caught ''encoding'' ''Failed to encode signature input key'' e))
      | Inr stringOfKey \<Rightarrow>
          (let name = fst it in
           if name = ''@method'' then Inr (stringOfKey, http_method r)
           else if name = ''@target-uri'' then Inr (stringOfKey, href (url r))
           else if name = ''@authority'' then Inr (stringOfKey, hostname (url r))
           else if name = ''@scheme'' then Inr (stringOfKey, butlast (protocol (url r)))
           else if name = ''@path'' then Inr (stringOfKey, pathname (url r))
           else if name = ''@query'' then Inr (stringOfKey, search (url r))
           else if name = ''@query-param'' then query_param_pair P r (snd it) stringOfKey
           else header_pair r name stringOfKey))"

fun verify_pairs ::
  "codec \<Rightarrow> platform \<Rightarrow> request \<Rightarrow> (string \<times> params option) list
     \<Rightarrow> failure + (string \<times> string) list" where
  "verify_pairs C P r [] = Inr []"
| "verify_pairs C P r (it # rest) =
     (case verify_pair C P r it of
        Inl e \<Rightarrow> Inl e
      | Inr pair \<Rightarrow>
          (case verify_pairs C P r rest of Inl e \<Rightarrow> Inl e | Inr pairs \<Rightarrow> Inr (pair # pairs)))"

text \<open>Line 490: \<^verbatim>\<open>stringOfSignatureInputDictionary.split('=').slice(1).join('=')\<close>.\<close>

definition signatureParamsValue :: "string \<Rightarrow> string" where
  "signatureParamsValue stringOfSignatureInputDictionary =
     join ''='' (drop 1 (split CHR ''='' stringOfSignatureInputDictionary))"

text \<open>Lines 413-493: the signature base the verifier rebuilds.\<close>

definition verify_base ::
  "codec \<Rightarrow> platform \<Rightarrow> request \<Rightarrow> (string \<times> params option) list \<Rightarrow> string
     \<Rightarrow> failure + string" where
  "verify_base C P r signatureInputItems stringOfSignatureInputDictionary =
     (case verify_pairs C P r signatureInputItems of
        Inl e \<Rightarrow> Inl e
      | Inr pairs \<Rightarrow>
          (case encodeItem C (Item (BString ''@signature-params'') None) of
             Inl t \<Rightarrow> Inl (Rejected t)
           | Inr paramsKey \<Rightarrow>
               Inr (base_of_pairs (pairs @
                 [(paramsKey, signatureParamsValue stringOfSignatureInputDictionary)]))))"

definition verifySignatureOfRequest ::
  "codec \<Rightarrow> platform \<Rightarrow> string \<Rightarrow> string \<Rightarrow> string \<Rightarrow> component list \<Rightarrow> string list \<Rightarrow> rat
     \<Rightarrow> request \<Rightarrow> verify_callback \<Rightarrow> failure + bool" where
  "verifySignatureOfRequest C P stringOfSignatureInputDictionary stringOfSignatureDictionary
       signatureLabel requiredInputs requiredParams maxAge r verify =
     (case parse_signature_input C stringOfSignatureInputDictionary signatureLabel of
        Inl e \<Rightarrow> Inl (Err e)
      | Inr (signatureInputItems, params) \<Rightarrow>
     (case parse_signature C stringOfSignatureDictionary signatureLabel of
        Inl e \<Rightarrow> Inl (Err e)
      | Inr providedSignature \<Rightarrow>
     (case check_required_inputs requiredInputs signatureInputItems of
        Some f \<Rightarrow> Inl f
      | None \<Rightarrow>
     (case params of
        None \<Rightarrow> Inl (Rejected TypeError)
      | Some signatureInputParams \<Rightarrow>
     (case check_required_params requiredParams signatureInputParams of
        Some e \<Rightarrow> Inl (Err e)
      | None \<Rightarrow>
     (case check_created P signatureInputParams maxAge of
        Some e \<Rightarrow> Inl (Err e)
      | None \<Rightarrow>
     (case check_content_digest C P r signatureInputItems of
        Some f \<Rightarrow> Inl f
      | None \<Rightarrow>
     (case verify_base C P r signatureInputItems stringOfSignatureInputDictionary of
        Inl f \<Rightarrow> Inl f
      | Inr base \<Rightarrow>
     (case verify base signatureInputParams providedSignature of
        Rejects t \<Rightarrow> Inl (Err (caught ''validation'' ''Signature verification didn't pass'' t))
      | Resolved_err e \<Rightarrow> Inl (Err e)
      | Resolved_ok v \<Rightarrow> Inr v)))))))))"

section \<open>The structured-field codec\<close>

text \<open>
  Modelled from the spec: the structured-field codec, which the program imports from the
  package \<^verbatim>\<open>structured-field-values\<close> (line 1) and whose source is not among the
  repository's files. The specification names its three functions (section 6) and the
  texts they read and write, \<^verbatim>\<open>label=(component-list);param=value;param2=value2\<close> and
  \<^verbatim>\<open>label=:base64:\<close>, a component key being quoted and followed by its parameters as
  \<^verbatim>\<open>;param="value"\<close> in insertion order (section 3); the syntax is that of RFC 8941,
  which the package implements, and the repository's tests fix the same texts
  (\<^verbatim>\<open>sig1=("@method" "@target-uri" "content-type");keyid="test-key-id";created=...\<close>,
  \<^verbatim>\<open>sig1=:AQIDBAUGBwgJAA==:\<close>). The codec \<open>sfv\<close> is used where a statement is evaluated on
  a concrete input; the general theorems hold for every codec.
\<close>

definition is_digit :: "char \<Rightarrow> bool" where
  "is_digit c = (48 \<le> (of_char c :: int) \<and> (of_char c :: int) \<le> 57)"

definition is_lcalpha :: "char \<Rightarrow> bool" where
  "is_lcalpha c = (97 \<le> (of_char c :: int) \<and> (of_char c :: int) \<le> 122)"

definition is_alpha :: "char \<Rightarrow> bool" where
  "is_alpha c = (is_lcalpha c \<or> (65 \<le> (of_char c :: int) \<and> (of_char c :: int) \<le> 90))"

definition is_key_char :: "char \<Rightarrow> bool" where
  "is_key_char c = (is_lcalpha c \<or> is_digit c \<or> c \<in> set ''_-.*'')"

definition is_token_char :: "char \<Rightarrow> bool" where
  "is_token_char c =
     (is_alpha c \<or> is_digit c \<or> c \<in> set ''!#$%&*+-.^_|~:/'' \<or> c = CHR 0x27 \<or> c = CHR 0x60)"

definition is_printable :: "char \<Rightarrow> bool" where
  "is_printable c = (32 \<le> (of_char c :: int) \<and> (of_char c :: int) \<le> 126)"

subsection \<open>Serializing\<close>

definition digit_char :: "int \<Rightarrow> char" where
  "digit_char n = ''0123456789'' ! nat (n mod 10)"

function show_digits :: "int \<Rightarrow> string" where
  "show_digits n =
     (if n < 10 then [digit_char n] else show_digits (n div 10) @ [digit_char n])"
  by pat_completeness auto
termination
  by (relation "measure nat") auto

declare show_digits.simps [simp del]

definition show_int :: "int \<Rightarrow> string" where
  "show_int i = (if i < 0 then ''-'' @ show_digits (- i) else show_digits i)"

definition valid_key :: "string \<Rightarrow> bool" where
  "valid_key k =
     (case k of [] \<Rightarrow> False | c # cs \<Rightarrow> (is_lcalpha c \<or> c = CHR ''*'') \<and> list_all is_key_char cs)"

definition valid_token :: "string \<Rightarrow> bool" where
  "valid_token t =
     (case t of [] \<Rightarrow> False | c # cs \<Rightarrow> (is_alpha c \<or> c = CHR ''*'') \<and> list_all is_token_char cs)"

definition show_fraction :: "int \<Rightarrow> string" where
  "show_fraction m =
     (if m mod 100 = 0 then [digit_char (m div 100)]
      else if m mod 10 = 0 then [digit_char (m div 100), digit_char (m div 10)]
      else [digit_char (m div 100), digit_char (m div 10), digit_char m])"

definition serialize_number :: "rat \<Rightarrow> thrown + string" where
  "serialize_number x =
     (if of_int \<lfloor>x\<rfloor> = x
      then (if \<bar>\<lfloor>x\<rfloor>\<bar> \<le> 999999999999999 then Inr (show_int \<lfloor>x\<rfloor>)
            else Inl (Thrown ''failed to serialize integer''))
      else (let m = round_half_even (x * 1000); a = \<bar>m\<bar>
            in if 999999999999 < a div 1000 then Inl (Thrown ''failed to serialize decimal'')
               else Inr ((if m < 0 then ''-'' else []) @ show_digits (a div 1000) @ ''.''
                         @ show_fraction (a mod 1000))))"

definition escape :: "char \<Rightarrow> string" where
  "escape c = (if c = CHR 0x5C \<or> c = CHR 0x22 then [CHR 0x5C, c] else [c])"

fun serialize_bare :: "bare \<Rightarrow> thrown + string" where
  "serialize_bare (BString s) =
     (if list_all is_printable s then Inr ([CHR 0x22] @ concat (map escape s) @ [CHR 0x22])
      else Inl (Thrown ''failed to serialize string''))"
| "serialize_bare (BNumber x) = serialize_number x"
| "serialize_bare (BBoolean b) = Inr (if b then ''?1'' else ''?0'')"
| "serialize_bare (BToken t) = (if valid_token t then Inr t else Inl (Thrown ''failed to serialize token''))"
| "serialize_bare (BBytes b) = Inr ('':'' @ uint8ArrayToBase64 b @ '':'')"

fun serialize_entries :: "params \<Rightarrow> thrown + string" where
  "serialize_entries [] = Inr []"
| "serialize_entries ((k, v) # rest) =
     (if \<not> valid_key k then Inl (Thrown ''failed to serialize key'')
      else (case (if v = BBoolean True then Inr [] else map_sum id (\<lambda>s. ''='' @ s) (serialize_bare v)) of
          Inl e \<Rightarrow> Inl e
        | Inr sv \<Rightarrow> (case serialize_entries rest of Inl e \<Rightarrow> Inl e | Inr sr \<Rightarrow> Inr ('';'' @ k @ sv @ sr))))"

definition serialize_params :: "params option \<Rightarrow> thrown + string" where
  "serialize_params ps = (case ps of None \<Rightarrow> Inr [] | Some kvs \<Rightarrow> serialize_entries kvs)"

definition serialize_item :: "item \<Rightarrow> thrown + string" where
  "serialize_item it =
     (case serialize_bare (ivalue it) of
        Inl e \<Rightarrow> Inl e
      | Inr sv \<Rightarrow> (case serialize_params (iparams it) of Inl e \<Rightarrow> Inl e | Inr sp \<Rightarrow> Inr (sv @ sp)))"

fun serialize_items :: "item list \<Rightarrow> thrown + string list" where
  "serialize_items [] = Inr []"
| "serialize_items (it # rest) =
     (case serialize_item it of
        Inl e \<Rightarrow> Inl e
      | Inr s \<Rightarrow> (case serialize_items rest of Inl e \<Rightarrow> Inl e | Inr ss \<Rightarrow> Inr (s # ss)))"

definition serialize_inner_list :: "item list \<Rightarrow> params option \<Rightarrow> thrown + string" where
  "serialize_inner_list its ps =
     (case serialize_items its of
        Inl e \<Rightarrow> Inl e
      | Inr ss \<Rightarrow> (case serialize_params ps of
            Inl e \<Rightarrow> Inl e
          | Inr sp \<Rightarrow> Inr (''('' @ join '' '' ss @ '')'' @ sp)))"

definition serialize_member :: "string \<times> member \<Rightarrow> thrown + string" where
  "serialize_member kv =
     (if \<not> valid_key (fst kv) then Inl (Thrown ''failed to serialize key'')
      else (case snd kv of
          Single (Item (BBoolean True) ps) \<Rightarrow> map_sum id (\<lambda>s. fst kv @ s) (serialize_params ps)
        | Single it \<Rightarrow> map_sum id (\<lambda>s. fst kv @ ''='' @ s) (serialize_item it)
        | InnerList its ps \<Rightarrow> map_sum id (\<lambda>s. fst kv @ ''='' @ s) (serialize_inner_list its ps)))"

fun serialize_members :: "(string \<times> member) list \<Rightarrow> thrown + string list" where
  "serialize_members [] = Inr []"
| "serialize_members (kv # rest) =
     (case serialize_member kv of
        Inl e \<Rightarrow> Inl e
      | Inr s \<Rightarrow> (case serialize_members rest of Inl e \<Rightarrow> Inl e | Inr ss \<Rightarrow> Inr (s # ss)))"

definition serialize_dict :: "(string \<times> member) list \<Rightarrow> thrown + string" where
  "serialize_dict kvs = map_sum id (join '', '') (serialize_members kvs)"

subsection \<open>Parsing\<close>

fun assign :: "string \<Rightarrow> 'v \<Rightarrow> (string \<times> 'v) list \<Rightarrow> (string \<times> 'v) list" where
  "assign k v [] = [(k, v)]"
| "assign k v ((k', v') # rest) = (if k' = k then (k, v) # rest else (k', v') # assign k v rest)"

definition is_sp :: "char \<Rightarrow> bool" where
  "is_sp c = (c = CHR '' '')"

definition is_ows :: "char \<Rightarrow> bool" where
  "is_ows c = (c = CHR '' '' \<or> c = CHR 0x09)"

definition parse_key :: "string \<Rightarrow> (string \<times> string) option" where
  "parse_key s =
     (case s of
        [] \<Rightarrow> None
      | c # cs \<Rightarrow>
          if is_lcalpha c \<or> c = CHR ''*''
          then Some (c # takeWhile is_key_char cs, dropWhile is_key_char cs)
          else None)"

definition digits_value :: "string \<Rightarrow> int" where
  "digits_value ds = foldl (\<lambda>a c. 10 * a + (of_char c - 48)) 0 ds"

definition parse_unsigned :: "string \<Rightarrow> (rat \<times> string) option" where
  "parse_unsigned s =
     (let ds = takeWhile is_digit s; rest = dropWhile is_digit s
      in if ds = [] then None
         else (case rest of
             [] \<Rightarrow> if 15 < length ds then None else Some (of_int (digits_value ds), rest)
           | c # after \<Rightarrow>
               if c = CHR ''.''
               then (let fs = takeWhile is_digit after
                     in if 12 < length ds \<or> fs = [] \<or> 3 < length fs then None
                        else Some (double (of_int (digits_value ds)
                                           + of_int (digits_value fs) / 10 ^ length fs),
                                   dropWhile is_digit after))
               else if 15 < length ds then None else Some (of_int (digits_value ds), rest)))"

fun parse_string :: "string \<Rightarrow> string \<Rightarrow> (string \<times> string) option" where
  "parse_string acc [] = None"
| "parse_string acc (c # cs) =
     (if c = CHR 0x5C
      then (case cs of
          [] \<Rightarrow> None
        | d # ds \<Rightarrow> if d = CHR 0x22 \<or> d = CHR 0x5C then parse_string (acc @ [d]) ds else None)
      else if c = CHR 0x22 then Some (acc, cs)
      else if is_printable c then parse_string (acc @ [c]) cs
      else None)"

fun base64_value :: "string \<Rightarrow> char \<Rightarrow> int" where
  "base64_value [] c = 0"
| "base64_value (a # as) c = (if a = c then 0 else 1 + base64_value as c)"

fun base64_bytes :: "int list \<Rightarrow> bytes" where
  "base64_bytes (a # b # c # d # rest) =
     (let n = a * 262144 + b * 4096 + c * 64 + d
      in [of_int (n div 65536), of_int (n div 256), of_int n] @ base64_bytes rest)"
| "base64_bytes [a, b, c] =
     (let n = a * 262144 + b * 4096 + c * 64 in [of_int (n div 65536), of_int (n div 256)])"
| "base64_bytes [a, b] = [of_int ((a * 262144 + b * 4096) div 65536)]"
| "base64_bytes xs = []"

definition parse_bytes :: "string \<Rightarrow> (bytes \<times> string) option" where
  "parse_bytes s =
     (let b64 = takeWhile (\<lambda>c. c \<noteq> CHR '':'') s; rest = dropWhile (\<lambda>c. c \<noteq> CHR '':'') s
      in if rest = [] \<or> \<not> list_all (\<lambda>c. c \<in> set base64_alphabet \<or> c = CHR ''='') b64 then None
         else Some (base64_bytes (map (base64_value base64_alphabet)
                      (takeWhile (\<lambda>c. c \<noteq> CHR ''='') b64)), tl rest))"

definition parse_bare :: "string \<Rightarrow> (bare \<times> string) option" where
  "parse_bare s =
     (case s of
        [] \<Rightarrow> None
      | c # cs \<Rightarrow>
          if c = CHR ''-'' then map_option (\<lambda>(x, rest). (BNumber (- x), rest)) (parse_unsigned cs)
          else if is_digit c then map_option (\<lambda>(x, rest). (BNumber x, rest)) (parse_unsigned s)
          else if c = CHR 0x22 then map_option (\<lambda>(x, rest). (BString x, rest)) (parse_string [] cs)
          else if is_alpha c \<or> c = CHR ''*''
            then Some (BToken (c # takeWhile is_token_char cs), dropWhile is_token_char cs)
          else if c = CHR '':'' then map_option (\<lambda>(x, rest). (BBytes x, rest)) (parse_bytes cs)
          else if c = CHR ''?''
            then (case cs of
                [] \<Rightarrow> None
              | d # ds \<Rightarrow> if d = CHR ''1'' then Some (BBoolean True, ds)
                          else if d = CHR ''0'' then Some (BBoolean False, ds) else None)
          else None)"

text \<open>
  The loops run on a copy of the input as fuel: every turn consumes a character, so the
  input itself is enough. Parameters start as \<^verbatim>\<open>null\<close> and become an object with the
  first one.
\<close>

definition add_parameter :: "string \<Rightarrow> bare \<Rightarrow> params option \<Rightarrow> params option" where
  "add_parameter k v acc = Some (assign k v (case acc of None \<Rightarrow> [] | Some kvs \<Rightarrow> kvs))"

fun parse_parameters ::
  "string \<Rightarrow> params option \<Rightarrow> string \<Rightarrow> (params option \<times> string) option" where
  "parse_parameters fuel acc [] = Some (acc, [])"
| "parse_parameters [] acc (c # cs) = (if c = CHR '';'' then None else Some (acc, c # cs))"
| "parse_parameters (f # fuel) acc (c # cs) =
     (if c \<noteq> CHR '';'' then Some (acc, c # cs)
      else (case parse_key (dropWhile is_sp cs) of
          None \<Rightarrow> None
        | Some (k, rest) \<Rightarrow>
            (case rest of
               [] \<Rightarrow> parse_parameters fuel (add_parameter k (BBoolean True) acc) rest
             | d # ds \<Rightarrow>
                 if d = CHR ''=''
                 then (case parse_bare ds of
                     None \<Rightarrow> None
                   | Some (v, rest') \<Rightarrow> parse_parameters fuel (add_parameter k v acc) rest')
                 else parse_parameters fuel (add_parameter k (BBoolean True) acc) rest)))"

definition parse_item :: "string \<Rightarrow> (item \<times> string) option" where
  "parse_item s =
     (case parse_bare s of
        None \<Rightarrow> None
      | Some (v, rest) \<Rightarrow>
          map_option (\<lambda>(ps, rest'). (Item v ps, rest')) (parse_parameters rest None rest))"

fun parse_inner_list :: "string \<Rightarrow> item list \<Rightarrow> string \<Rightarrow> (member \<times> string) option" where
  "parse_inner_list [] acc s = None"
| "parse_inner_list (f # fuel) acc s =
     (case dropWhile is_sp s of
        [] \<Rightarrow> None
      | c # cs \<Rightarrow>
          if c = CHR '')''
          then map_option (\<lambda>(ps, rest). (InnerList acc ps, rest)) (parse_parameters cs None cs)
          else (case parse_item (c # cs) of
              None \<Rightarrow> None
            | Some (it, rest) \<Rightarrow>
                (case rest of
                   [] \<Rightarrow> None
                 | d # ds \<Rightarrow>
                     if d = CHR '' '' \<or> d = CHR '')''
                     then parse_inner_list fuel (acc @ [it]) rest
                     else None)))"

definition parse_member :: "string \<Rightarrow> (member \<times> string) option" where
  "parse_member s =
     (case s of
        [] \<Rightarrow> map_option (\<lambda>(ps, rest). (Single (Item (BBoolean True) ps), rest))
                (parse_parameters s None s)
      | c # cs \<Rightarrow>
          if c = CHR ''=''
          then (case cs of
              [] \<Rightarrow> None
            | d # ds \<Rightarrow>
                if d = CHR ''('' then parse_inner_list cs [] ds
                else map_option (\<lambda>(it, rest). (Single it, rest)) (parse_item cs))
          else map_option (\<lambda>(ps, rest). (Single (Item (BBoolean True) ps), rest))
                 (parse_parameters s None s))"

fun parse_members ::
  "string \<Rightarrow> (string \<times> member) list \<Rightarrow> string \<Rightarrow> (string \<times> member) list option" where
  "parse_members [] acc s = None"
| "parse_members (f # fuel) acc s =
     (case parse_key s of
        None \<Rightarrow> None
      | Some (k, rest) \<Rightarrow>
          (case parse_member rest of
             None \<Rightarrow> None
           | Some (m, rest') \<Rightarrow>
               (case dropWhile is_ows rest' of
                  [] \<Rightarrow> Some (assign k m acc)
                | c # cs \<Rightarrow>
                    if c \<noteq> CHR '','' then None
                    else (case dropWhile is_ows cs of
                        [] \<Rightarrow> None
                      | d # ds \<Rightarrow> parse_members fuel (assign k m acc) (d # ds)))))"

definition parse_dict :: "string \<Rightarrow> thrown + dictionary" where
  "parse_dict s =
     (case dropWhile is_sp s of
        [] \<Rightarrow> Inr (AsObject [])
      | c # cs \<Rightarrow>
          (case parse_members (c # cs) [] (c # cs) of
             None \<Rightarrow> Inl (Thrown ''failed to parse dictionary'')
           | Some kvs \<Rightarrow> Inr (AsObject kvs)))"

definition sfv :: codec where
  "sfv = \<lparr>decodeDict = parse_dict, encodeDict = serialize_dict, encodeItem = serialize_item\<rparr>"

section \<open>Errors and clock of the verification stages\<close>

text \<open>
  The error objects of lines 309-313, of lines 324-328, of lines 298-302 and of lines
  286-290.
\<close>

definition created_missing :: error where
  "created_missing =
     \<lparr>err_type = ''validation'', err_message = ''Invalid signature'',
      err_context = Text ''Missing required parameter \"created\" in signature input''\<rparr>"

definition signature_expired :: error where
  "signature_expired =
     \<lparr>err_type = ''validation'', err_message = ''Signature expired'',
      err_context = Text ''Signature expired''\<rparr>"

definition required_parameter_missing :: "string \<Rightarrow> error" where
  "required_parameter_missing requiredParam =
     \<lparr>err_type = ''validation'', err_message = ''Invalid signature'',
      err_context = Text (''Missing required parameter \"'' @ requiredParam
                          @ ''\" in signature input'')\<rparr>"

definition required_input_missing :: "component \<Rightarrow> error" where
  "required_input_missing input =
     \<lparr>err_type = ''validation'', err_message = ''Invalid signature'',
      err_context = Text (''Missing required input field \"'' @ input_text input
                          @ ''\" in signature input'')\<rparr>"


section \<open>Notions for the round trip\<close>





text \<open>
  The item the verifier reads for a component the signer was given, the parameters of a
  component that has none being \<^verbatim>\<open>null\<close>; and a component list every component of which the
  search of lines 282-284 finds in the list itself so read.
\<close>

definition written :: "component \<Rightarrow> string \<times> params option" where
  "written c =
     (component_name c, if component_params c = [] then None else Some (component_params c))"

definition self_matching :: "component list \<Rightarrow> bool" where
  "self_matching L = list_all (\<lambda>c. find_input c (map written L) = Inr True) L"



section \<open>Example inputs\<close>

text \<open>
  A platform whose clock reads \<open>ms\<close>; the examples compute no digest and convert no
  parameter value to a string.
\<close>

definition platform_at :: "int \<Rightarrow> platform" where
  "platform_at ms =
     \<lparr>date_now = ms,
      subtle_digest = (\<lambda>algorithm data. Inl (Thrown ''NotSupportedError'')),
      coerce = (\<lambda>v. Inl TypeError)\<rparr>"

text \<open>The header lookup of a request with the listed (lower-case) headers.\<close>

definition header_list :: "(string \<times> string) list \<Rightarrow> string \<Rightarrow> thrown + string option" where
  "header_list hs name = Inr (map_of hs name)"

text \<open>\<^verbatim>\<open>new URL('https://example.com:8443/')\<close>.\<close>

definition url_8443 :: URL where
  "url_8443 =
     \<lparr>scheme = ''https'', username = [], password = [], host = Some ''example.com'',
      port = Some ''8443'', path = ''/'', query = None, fragment = None, searchParams = []\<rparr>"

definition request_8443 :: request where
  "request_8443 =
     \<lparr>headers = header_list [], url = url_8443, http_method = ''GET'', body = None\<rparr>"

text \<open>\<^verbatim>\<open>new URL('https://example.com/path')\<close> and \<^verbatim>\<open>new URL('https://example.com/path?')\<close>.\<close>

definition url_no_query :: URL where
  "url_no_query =
     \<lparr>scheme = ''https'', username = [], password = [], host = Some ''example.com'',
      port = None, path = ''/path'', query = None, fragment = None, searchParams = []\<rparr>"

definition url_empty_query :: URL where
  "url_empty_query = url_no_query\<lparr>query := Some []\<rparr>"

definition request_of :: "URL \<Rightarrow> request" where
  "request_of u = \<lparr>headers = header_list [], url = u, http_method = ''GET'', body = None\<rparr>"

text \<open>\<^verbatim>\<open>new URL('https://example.com/foo?param1=value1')\<close>.\<close>

definition url_param1 :: URL where
  "url_param1 =
     \<lparr>scheme = ''https'', username = [], password = [], host = Some ''example.com'',
      port = None, path = ''/foo'', query = Some ''param1=value1'', fragment = None,
      searchParams = [(''param1'', ''value1'')]\<rparr>"

text \<open>
  The request of the end-to-end scenario: \<^verbatim>\<open>POST https://example.com/foo?bar=baz\<close> with the
  header \<^verbatim>\<open>content-type: application/json\<close>, and the four lines of its signature base.
\<close>

definition scenario_url :: URL where
  "scenario_url =
     \<lparr>scheme = ''https'', username = [], password = [], host = Some ''example.com'',
      port = None, path = ''/foo'', query = Some ''bar=baz'', fragment = None,
      searchParams = [(''bar'', ''baz'')]\<rparr>"

definition scenario_request :: request where
  "scenario_request =
     \<lparr>headers = header_list [(''content-type'', ''application/json'')], url = scenario_url,
      http_method = ''POST'', body = None\<rparr>"

definition scenario_lines :: "int \<Rightarrow> string list" where
  "scenario_lines T =
     [''\"@method\": POST'',
      ''\"@target-uri\": https://example.com/foo?bar=baz'',
      ''\"content-type\": application/json'',
      ''\"@signature-params\": (\"@method\" \"@target-uri\" \"content-type\");keyid=\"k\";created=''
        @ show_int T]"

text \<open>A verify callback that accepts every signature.\<close>

definition always_valid :: verify_callback where
  "always_valid = (\<lambda>signatureBase ps sig. Resolved_ok True)"

text \<open>
  A sign callback with a fixed signature, and the verify callback that accepts exactly
  what a sign callback returns.
\<close>

definition sign_123 :: sign_callback where
  "sign_123 = (\<lambda>signatureBase ps. Resolved_ok [1, 2, 3])"

definition verifier_of :: "sign_callback \<Rightarrow> verify_callback" where
  "verifier_of sign =
     (\<lambda>signatureBase ps sig.
        if sign signatureBase ps = Resolved_ok sig then Resolved_ok True
        else Resolved_err \<lparr>err_type = ''verification'', err_message = ''Signature mismatch'',
                            err_context = Absent\<rparr>)"



definition scenario_params :: params where
  "scenario_params = [(''keyid'', BString ''test-key-id''), (''created'', BNumber 1700000000)]"






section \<open>Properties\<close>

subsection \<open>Resolver errors\<close>









subsection \<open>The end-to-end scenario\<close>

lemma scenario_href: "href scenario_url = ''https://example.com/foo?bar=baz''"
  by code_simp

text \<open>
  Claim C2. For the request with method POST, URL \<^verbatim>\<open>https://example.com/foo?bar=baz\<close> and
  header \<^verbatim>\<open>content-type: application/json\<close>, signing with the identifiers \<^verbatim>\<open>@method\<close>,
  \<^verbatim>\<open>@target-uri\<close>, \<^verbatim>\<open>content-type\<close> and the parameters keyid \<^verbatim>\<open>k\<close> and created \<open>T\<close>
  (an integer a structured field can carry) under any label gives exactly the base of the
  four lines of \<open>scenario_lines\<close>, joined by one newline, with no newline at the end; the
  sign callback receives that base, and the result carries it with the two header texts.
\<close>

theorem scenario_signature_base:
  assumes "valid_key signatureLabel"
    and "\<bar>T\<bar> \<le> 999999999999999"
    and "sign (join [CHR 0x0A] (scenario_lines T)) [(''keyid'', BString ''k''), (''created'', BNumber (of_int T))]
          = Resolved_ok sig"
  shows "createSignatureForRequest sfv P [Name ''@method'', Name ''@target-uri'', Name ''content-type'']
           signatureLabel [(''keyid'', BString ''k''), (''created'', BNumber (of_int T))]
           scenario_request sign
         = Inr \<lparr>signatureInput = signatureLabel
                   @ ''=(\"@method\" \"@target-uri\" \"content-type\");keyid=\"k\";created='' @ show_int T,
                 signature = signatureLabel @ ''=:'' @ uint8ArrayToBase64 sig @ '':'',
                 signatureBase = join [CHR 0x0A] (scenario_lines T)\<rparr>"
  using assms
  by (simp add: createSignatureForRequest_def sfv_def serialize_dict_def serialize_member_def
      serialize_inner_list_def serialize_item_def serialize_params_def toItem_def
      serialize_number_def create_pair_def header_pair_def scenario_request_def header_list_def
      scenario_href base_of_pairs_def scenario_lines_def is_printable_def valid_key_def
      is_lcalpha_def is_key_char_def is_digit_def escape_def)

theorem scenario_signature_base_witness:
  "createSignatureForRequest sfv (platform_at 0)
       [Name ''@method'', Name ''@target-uri'', Name ''content-type''] ''sig1''
       [(''keyid'', BString ''k''), (''created'', BNumber 1700000000)]
       scenario_request (\<lambda>b p. Resolved_ok [1, 2, 3, 4, 5, 6, 7, 8, 9, 0])
     = Inr \<lparr>signatureInput =
               ''sig1=(\"@method\" \"@target-uri\" \"content-type\");keyid=\"k\";created=1700000000'',
             signature = ''sig1=:AQIDBAUGBwgJAA==:'',
             signatureBase =
               ''\"@method\": POST'' @ [CHR 0x0A]
               @ ''\"@target-uri\": https://example.com/foo?bar=baz'' @ [CHR 0x0A]
               @ ''\"content-type\": application/json'' @ [CHR 0x0A]
               @ ''\"@signature-params\": (\"@method\" \"@target-uri\" \"content-type\");keyid=\"k\";created=1700000000''\<rparr>"
proof -
  have l: "valid_key ''sig1''" by code_simp
  have t: "\<bar>1700000000 :: int\<bar> \<le> 999999999999999" by simp
  have s: "(\<lambda>b p. Resolved_ok [1, 2, 3, 4, 5, 6, 7, 8, 9, 0 :: 8 word])
             (join [CHR 0x0A] (scenario_lines 1700000000))
             [(''keyid'', BString ''k''), (''created'', BNumber (of_int 1700000000))]
           = Resolved_ok [1, 2, 3, 4, 5, 6, 7, 8, 9, 0]"
    by simp
  have d: "show_int 1700000000 = ''1700000000''" by code_simp
  have b: "uint8ArrayToBase64 [1, 2, 3, 4, 5, 6, 7, 8, 9, 0] = ''AQIDBAUGBwgJAA==''" by code_simp
  from scenario_signature_base [OF l t s, of "platform_at 0"] d b
  show ?thesis by (simp add: scenario_lines_def)
qed

subsection \<open>The authority component\<close>

text \<open>
  Claim C5, as the program has it. The \<^verbatim>\<open>@authority\<close> component resolves to the host name
  of the URL, in signing and in verification alike; the port is no part of it, whether
  default or not.
\<close>

theorem authority_is_hostname:
  "(component_name c = ''@authority'' \<and> encodeItem C (toItem c) = Inr k
      \<longrightarrow> create_pair C P r c = Inr (k, hostname (url r)))
   \<and> (encodeItem C (Item (BString ''@authority'') ps) = Inr k'
      \<longrightarrow> verify_pair C P r (''@authority'', ps) = Inr (k', hostname (url r)))
   \<and> hostname ((url r)\<lparr>port := p\<rparr>) = hostname (url r)"
  by (auto simp add: create_pair_def verify_pair_def toItem_def hostname_def Let_def)

theorem authority_is_hostname_witness:
  "create_pair sfv (platform_at 0) request_8443 (Name ''@authority'')
       = Inr (''\"@authority\"'', hostname (url request_8443))
   \<and> verify_pair sfv (platform_at 0) request_8443 (''@authority'', None)
       = Inr (''\"@authority\"'', hostname (url request_8443))
   \<and> hostname ((url request_8443)\<lparr>port := None\<rparr>) = hostname (url request_8443)
   \<and> hostname (url request_8443) = ''example.com''"
proof -
  have n: "component_name (Name ''@authority'') = ''@authority''" by simp
  have k: "encodeItem sfv (toItem (Name ''@authority'')) = Inr ''\"@authority\"''" by code_simp
  have k': "encodeItem sfv (Item (BString ''@authority'') None) = Inr ''\"@authority\"''" by code_simp
  have h: "hostname (url request_8443) = ''example.com''" by code_simp
  from authority_is_hostname [of "Name ''@authority''" sfv "''\"@authority\"''" "platform_at 0"
      request_8443 None "''\"@authority\"''" None] n k k' h
  show ?thesis by simp
qed

text \<open>
  The claim as stated fails: for \<^verbatim>\<open>https://example.com:8443/\<close> both functions resolve
  \<^verbatim>\<open>@authority\<close> to \<^verbatim>\<open>example.com\<close>, not to \<^verbatim>\<open>example.com:8443\<close>.
\<close>

theorem authority_counterexample:
  "href (url request_8443) = ''https://example.com:8443/''
   \<and> create_pair sfv (platform_at 0) request_8443 (Name ''@authority'')
       = Inr (''\"@authority\"'', ''example.com'')
   \<and> create_pair sfv (platform_at 0) request_8443 (Name ''@authority'')
       \<noteq> Inr (''\"@authority\"'', ''example.com:8443'')
   \<and> verify_pair sfv (platform_at 0) request_8443 (''@authority'', None)
       = Inr (''\"@authority\"'', ''example.com'')
   \<and> verify_pair sfv (platform_at 0) request_8443 (''@authority'', None)
       \<noteq> Inr (''\"@authority\"'', ''example.com:8443'')"
  by code_simp

subsection \<open>The query component\<close>

text \<open>
  Claim C10. For every request the \<^verbatim>\<open>@query\<close> component resolves to the same value in
  \<^verbatim>\<open>createSignatureForRequest\<close> and in \<^verbatim>\<open>verifySignatureOfRequest\<close>, the search of the
  URL (the two calls return the same pair when they encode the same item); when the URL
  has no \<^verbatim>\<open>?\<close> at all, or a \<^verbatim>\<open>?\<close> followed by nothing, the value is the empty string in
  both, and the line of the base is the key, a colon and a space.
\<close>

theorem query_component_agrees:
  assumes "component_name c = ''@query''"
  shows "create_pair C P r c = verify_pair C P r (component_name c, Some (component_params c))
     \<and> (encodeItem C (toItem c) = Inr k \<longrightarrow> create_pair C P r c = Inr (k, search (url r)))
     \<and> (encodeItem C (Item (BString ''@query'') ps) = Inr k'
          \<longrightarrow> verify_pair C P r (''@query'', ps) = Inr (k', search (url r)))
     \<and> (query (url r) = None \<or> query (url r) = Some []
          \<longrightarrow> search (url r) = [] \<and> base_of_pairs [(k, search (url r))] = k @ '': '')"
  using assms
  by (auto simp add: create_pair_def verify_pair_def toItem_def search_def base_of_pairs_def
      Let_def split: sum.splits option.splits)

theorem query_component_agrees_witness:
  "href url_no_query = ''https://example.com/path''
   \<and> href url_empty_query = ''https://example.com/path?''
   \<and> create_pair sfv (platform_at 0) (request_of url_no_query) (Name ''@query'')
       = Inr (''\"@query\"'', [])
   \<and> create_pair sfv (platform_at 0) (request_of url_empty_query) (Name ''@query'')
       = Inr (''\"@query\"'', [])
   \<and> verify_pair sfv (platform_at 0) (request_of url_no_query) (''@query'', None)
       = Inr (''\"@query\"'', [])
   \<and> verify_pair sfv (platform_at 0) (request_of url_empty_query) (''@query'', None)
       = Inr (''\"@query\"'', [])
   \<and> base_of_pairs [(''\"@query\"'', [])] = ''\"@query\": ''"
proof -
  have n: "component_name (Name ''@query'') = ''@query''" by simp
  have k: "encodeItem sfv (toItem (Name ''@query'')) = Inr ''\"@query\"''" by code_simp
  have k': "encodeItem sfv (Item (BString ''@query'') None) = Inr ''\"@query\"''" by code_simp
  have q1: "query (url (request_of url_no_query)) = None" by code_simp
  have q2: "query (url (request_of url_empty_query)) = Some []" by code_simp
  have h1: "href url_no_query = ''https://example.com/path''" by code_simp
  have h2: "href url_empty_query = ''https://example.com/path?''" by code_simp
  note t1 = query_component_agrees [OF n, of sfv "platform_at 0" "request_of url_no_query"
        "''\"@query\"''" None "''\"@query\"''"]
  note t2 = query_component_agrees [OF n, of sfv "platform_at 0" "request_of url_empty_query"
        "''\"@query\"''" None "''\"@query\"''"]
  from t1 k k' q1 have 1:
    "create_pair sfv (platform_at 0) (request_of url_no_query) (Name ''@query'')
       = Inr (''\"@query\"'', search (url (request_of url_no_query)))
     \<and> verify_pair sfv (platform_at 0) (request_of url_no_query) (''@query'', None)
       = Inr (''\"@query\"'', search (url (request_of url_no_query)))
     \<and> search (url (request_of url_no_query)) = []
     \<and> base_of_pairs [(''\"@query\"'', search (url (request_of url_no_query)))]
       = ''\"@query\"'' @ '': ''"
    by blast
  from t2 k k' q2 have 2:
    "create_pair sfv (platform_at 0) (request_of url_empty_query) (Name ''@query'')
       = Inr (''\"@query\"'', search (url (request_of url_empty_query)))
     \<and> verify_pair sfv (platform_at 0) (request_of url_empty_query) (''@query'', None)
       = Inr (''\"@query\"'', search (url (request_of url_empty_query)))
     \<and> search (url (request_of url_empty_query)) = []"
    by blast
  from 1 2 h1 h2 show ?thesis by (simp add: base_of_pairs_def)
qed

subsection \<open>A missing header\<close>



subsection \<open>Where verification stops\<close>

lemma verify_stops_at_required_inputs:
  assumes "parse_signature_input C inputText l = Inr (items, ps)"
    and "parse_signature C signatureText l = Inr sig"
    and "check_required_inputs ri items = Some f"
  shows "verifySignatureOfRequest C P inputText signatureText l ri rp maxAge r verify = Inl f"
  using assms by (simp add: verifySignatureOfRequest_def)

lemma verify_stops_at_required_params:
  assumes "parse_signature_input C inputText l = Inr (items, Some ps)"
    and "parse_signature C signatureText l = Inr sig"
    and "check_required_inputs ri items = None"
    and "check_required_params rp ps = Some e"
  shows "verifySignatureOfRequest C P inputText signatureText l ri rp maxAge r verify = Inl (Err e)"
  using assms by (simp add: verifySignatureOfRequest_def)

lemma verify_stops_at_created:
  assumes "parse_signature_input C inputText l = Inr (items, Some ps)"
    and "parse_signature C signatureText l = Inr sig"
    and "check_required_inputs ri items = None"
    and "check_required_params rp ps = None"
    and "check_created P ps maxAge = Some e"
  shows "verifySignatureOfRequest C P inputText signatureText l ri rp maxAge r verify = Inl (Err e)"
  using assms by (simp add: verifySignatureOfRequest_def)

lemma map_of_key_in: "map_of ps k = Some v \<Longrightarrow> key_in k ps"
  by (auto simp add: key_in_def dest: map_of_SomeD intro: rev_image_eqI)

subsection \<open>A created parameter of zero\<close>

text \<open>
  Claim C9. When the parsed signature input carries the parameter \<^verbatim>\<open>created\<close> with the
  number 0 and the earlier stages pass, verification fails at the freshness stage with the
  validation error for a missing \<^verbatim>\<open>created\<close> (context
  \<^verbatim>\<open>Missing required parameter "created" in signature input\<close>), whatever the clock and
  the maximum age, although the key is present: the test is \<^verbatim>\<open>!paramCreated\<close>.
\<close>

theorem created_zero_reads_as_missing:
  assumes "parse_signature_input C inputText l = Inr (items, Some ps)"
    and "parse_signature C signatureText l = Inr sig"
    and "check_required_inputs ri items = None"
    and "check_required_params rp ps = None"
    and "map_of ps ''created'' = Some (BNumber 0)"
  shows "key_in ''created'' ps
     \<and> check_created P ps maxAge = Some created_missing
     \<and> verifySignatureOfRequest C P inputText signatureText l ri rp maxAge r verify = Inl (Err created_missing)"
proof -
  have c: "check_created P ps maxAge = Some created_missing"
    using assms(5) by (simp add: check_created_def created_missing_def validation_def)
  from verify_stops_at_created [OF assms(1-4) c] c map_of_key_in [OF assms(5)]
  show ?thesis by simp
qed

theorem created_zero_reads_as_missing_witness:
  "key_in ''created'' [(''keyid'', BString ''k''), (''created'', BNumber 0)]
   \<and> check_created (platform_at 1700000000000) [(''keyid'', BString ''k''), (''created'', BNumber 0)]
        2000000000 = Some created_missing
   \<and> verifySignatureOfRequest sfv (platform_at 1700000000000)
        ''sig1=(\"@method\");keyid=\"k\";created=0'' ''sig1=:AQID:'' ''sig1''
        [Name ''@method''] [''keyid'', ''created''] 2000000000 scenario_request always_valid
      = Inl (Err created_missing)"
proof -
  have 1: "parse_signature_input sfv ''sig1=(\"@method\");keyid=\"k\";created=0'' ''sig1''
           = Inr ([(''@method'', None)], Some [(''keyid'', BString ''k''), (''created'', BNumber 0)])"
    by code_simp
  have 2: "parse_signature sfv ''sig1=:AQID:'' ''sig1'' = Inr [1, 2, 3]"
    by code_simp
  have 3: "check_required_inputs [Name ''@method''] [(''@method'', None)] = None"
    by code_simp
  have 4: "check_required_params [''keyid'', ''created'']
             [(''keyid'', BString ''k''), (''created'', BNumber 0)] = None"
    by code_simp
  have 5: "map_of [(''keyid'', BString ''k''), (''created'', BNumber 0)] ''created'' = Some (BNumber 0)"
    by code_simp
  show ?thesis
    by (rule created_zero_reads_as_missing [OF 1 2 3 4 5])
qed

subsection \<open>Required parameters come before freshness\<close>

lemma check_required_params_first_missing:
  assumes "\<forall>p\<in>set present. key_in p ps" and "\<not> key_in k ps"
  shows "check_required_params (present @ k # rest) ps = Some (required_parameter_missing k)"
  using assms by (induction present) (simp_all add: required_parameter_missing_def validation_def)

lemma check_required_params_None:
  "check_required_params rp ps = None \<longleftrightarrow> (\<forall>p\<in>set rp. key_in p ps)"
  by (induction rp) simp_all

lemma created_not_inherited: "''created'' \<notin> set prototype_keys"
  by (simp add: prototype_keys_def)

text \<open>
  Claim C8, as the program has it. The required-parameters stage comes before the
  freshness stage: when a required parameter is absent from the parsed parameters, those
  listed before it being present, verification returns the error of lines 298-302 that
  names it, whatever the freshness stage would answer, and the error of the freshness
  stage is returned only when every required parameter is present. For an absent
  \<^verbatim>\<open>created\<close> that \<^verbatim>\<open>requiredParams\<close> lists, the error so returned is the same object, in
  type, message and context, as the one the freshness stage returns for a missing
  \<^verbatim>\<open>created\<close>.
\<close>

theorem required_created_checked_first:
  assumes "parse_signature_input C inputText l = Inr (items, Some ps)"
    and "parse_signature C signatureText l = Inr sig"
    and "check_required_inputs ri items = None"
  shows "(rp = present @ k # rest \<and> (\<forall>p\<in>set present. key_in p ps) \<and> \<not> key_in k ps
          \<longrightarrow> check_required_params rp ps = Some (required_parameter_missing k)
            \<and> verifySignatureOfRequest C P inputText signatureText l ri rp maxAge r verify
              = Inl (Err (required_parameter_missing k)))
     \<and> ((\<forall>p\<in>set rp. key_in p ps) \<and> check_created P ps maxAge = Some e
          \<longrightarrow> verifySignatureOfRequest C P inputText signatureText l ri rp maxAge r verify
              = Inl (Err e))
     \<and> (rp = present @ ''created'' # rest \<and> (\<forall>p\<in>set present. key_in p ps)
          \<and> map_of ps ''created'' = None
          \<longrightarrow> check_required_params rp ps = Some created_missing
            \<and> verifySignatureOfRequest C P inputText signatureText l ri rp maxAge r verify
              = Inl (Err created_missing)
            \<and> check_created P ps maxAge = Some created_missing)
     \<and> required_parameter_missing ''created'' = created_missing"
proof (intro conjI impI)
  assume a: "rp = present @ k # rest \<and> (\<forall>p\<in>set present. key_in p ps) \<and> \<not> key_in k ps"
  then show p: "check_required_params rp ps = Some (required_parameter_missing k)"
    by (simp add: check_required_params_first_missing)
  show "verifySignatureOfRequest C P inputText signatureText l ri rp maxAge r verify
        = Inl (Err (required_parameter_missing k))"
    by (rule verify_stops_at_required_params [OF assms p])
next
  assume "(\<forall>p\<in>set rp. key_in p ps) \<and> check_created P ps maxAge = Some e"
  then show "verifySignatureOfRequest C P inputText signatureText l ri rp maxAge r verify
             = Inl (Err e)"
    using verify_stops_at_created [OF assms] by (simp add: check_required_params_None)
next
  show same: "required_parameter_missing ''created'' = created_missing"
    by (simp add: required_parameter_missing_def created_missing_def)
  assume a: "rp = present @ ''created'' # rest \<and> (\<forall>p\<in>set present. key_in p ps)
          \<and> map_of ps ''created'' = None"
  then have "''created'' \<notin> set (map fst ps)"
    by (simp add: map_of_eq_None_iff)
  then have "\<not> key_in ''created'' ps"
    using created_not_inherited by (simp add: key_in_def)
  with a show p: "check_required_params rp ps = Some created_missing"
    by (simp add: check_required_params_first_missing same)
  show "verifySignatureOfRequest C P inputText signatureText l ri rp maxAge r verify
        = Inl (Err created_missing)"
    by (rule verify_stops_at_required_params [OF assms p])
  from a show "check_created P ps maxAge = Some created_missing"
    by (simp add: check_created_def created_missing_def validation_def)
qed

theorem required_created_checked_first_witness:
  "verifySignatureOfRequest sfv (platform_at 1700000000000)
        ''sig1=(\"@method\");alg=\"x\"'' ''sig1=:AQID:'' ''sig1''
        [Name ''@method''] [''keyid'', ''created''] 300 scenario_request always_valid
      = Inl (Err (required_parameter_missing ''keyid''))
   \<and> check_created (platform_at 1700000000000) [(''alg'', BString ''x'')] 300
      = Some created_missing
   \<and> required_parameter_missing ''keyid'' \<noteq> created_missing
   \<and> verifySignatureOfRequest sfv (platform_at 1700000000000)
        ''sig1=(\"@method\");keyid=\"test-key-id\";created=1699999699'' ''sig1=:AQID:'' ''sig1''
        [Name ''@method''] [''keyid'', ''created''] 300 scenario_request always_valid
      = Inl (Err signature_expired)
   \<and> check_required_params [''keyid'', ''created''] [(''keyid'', BString ''test-key-id'')]
      = Some created_missing
   \<and> verifySignatureOfRequest sfv (platform_at 1700000000000)
        ''sig1=(\"@method\");keyid=\"test-key-id\"'' ''sig1=:AQID:'' ''sig1''
        [Name ''@method''] [''keyid'', ''created''] 300 scenario_request always_valid
      = Inl (Err created_missing)
   \<and> check_created (platform_at 1700000000000) [(''keyid'', BString ''test-key-id'')] 300
      = Some created_missing"
proof -
  have s: "parse_signature sfv ''sig1=:AQID:'' ''sig1'' = Inr [1, 2, 3]"
    by code_simp
  have i: "check_required_inputs [Name ''@method''] [(''@method'', None)] = None"
    by code_simp
  have 1: "parse_signature_input sfv ''sig1=(\"@method\");alg=\"x\"'' ''sig1''
           = Inr ([(''@method'', None)], Some [(''alg'', BString ''x'')])"
    by code_simp
  have 2: "parse_signature_input sfv
             ''sig1=(\"@method\");keyid=\"test-key-id\";created=1699999699'' ''sig1''
           = Inr ([(''@method'', None)],
                  Some [(''keyid'', BString ''test-key-id''), (''created'', BNumber 1699999699)])"
    by code_simp
  have 3: "parse_signature_input sfv ''sig1=(\"@method\");keyid=\"test-key-id\"'' ''sig1''
           = Inr ([(''@method'', None)], Some [(''keyid'', BString ''test-key-id'')])"
    by code_simp
  have a: "[''keyid'', ''created''] = [] @ ''keyid'' # [''created'']
           \<and> (\<forall>p\<in>set []. key_in p [(''alg'', BString ''x'')])
           \<and> \<not> key_in ''keyid'' [(''alg'', BString ''x'')]"
    by (simp add: key_in_def prototype_keys_def)
  have b: "(\<forall>p\<in>set [''keyid'', ''created''].
              key_in p [(''keyid'', BString ''test-key-id''), (''created'', BNumber 1699999699)])
           \<and> check_created (platform_at 1700000000000)
                [(''keyid'', BString ''test-key-id''), (''created'', BNumber 1699999699)] 300
              = Some signature_expired"
    by code_simp
  have c: "[''keyid'', ''created''] = [''keyid''] @ ''created'' # []
           \<and> (\<forall>p\<in>set [''keyid'']. key_in p [(''keyid'', BString ''test-key-id'')])
           \<and> map_of [(''keyid'', BString ''test-key-id'')] ''created'' = None"
    by (simp add: key_in_def)
  note ta = required_created_checked_first [OF 1 s i, where P = "platform_at 1700000000000"
      and maxAge = 300 and r = scenario_request and verify = always_valid]
  note tb = required_created_checked_first [OF 2 s i, where P = "platform_at 1700000000000"
      and maxAge = 300 and r = scenario_request and verify = always_valid]
  note tc = required_created_checked_first [OF 3 s i, where P = "platform_at 1700000000000"
      and maxAge = 300 and r = scenario_request and verify = always_valid]
  from ta a have x: "verifySignatureOfRequest sfv (platform_at 1700000000000)
        ''sig1=(\"@method\");alg=\"x\"'' ''sig1=:AQID:'' ''sig1''
        [Name ''@method''] [''keyid'', ''created''] 300 scenario_request always_valid
      = Inl (Err (required_parameter_missing ''keyid''))"
    by blast
  have x': "check_created (platform_at 1700000000000) [(''alg'', BString ''x'')] 300
            = Some created_missing
          \<and> required_parameter_missing ''keyid'' \<noteq> created_missing"
    by code_simp
  from tb b have y: "verifySignatureOfRequest sfv (platform_at 1700000000000)
        ''sig1=(\"@method\");keyid=\"test-key-id\";created=1699999699'' ''sig1=:AQID:'' ''sig1''
        [Name ''@method''] [''keyid'', ''created''] 300 scenario_request always_valid
      = Inl (Err signature_expired)"
    by blast
  from tc c have z: "check_required_params [''keyid'', ''created''] [(''keyid'', BString ''test-key-id'')]
      = Some created_missing
   \<and> verifySignatureOfRequest sfv (platform_at 1700000000000)
        ''sig1=(\"@method\");keyid=\"test-key-id\"'' ''sig1=:AQID:'' ''sig1''
        [Name ''@method''] [''keyid'', ''created''] 300 scenario_request always_valid
      = Inl (Err created_missing)
   \<and> check_created (platform_at 1700000000000) [(''keyid'', BString ''test-key-id'')] 300
      = Some created_missing"
    by blast
  from x x' y z show ?thesis by blast
qed

text \<open>
  The claim as stated fails: with and without \<^verbatim>\<open>created\<close> among the required parameters
  the caller receives the same error, and the two stages return equal errors.
\<close>

theorem required_created_counterexample:
  "verifySignatureOfRequest sfv (platform_at 1700000000000)
        ''sig1=(\"@method\");keyid=\"test-key-id\"'' ''sig1=:AQIDBAUGBwgJAA==:'' ''sig1''
        [Name ''@method''] [''keyid'', ''created''] 300 scenario_request always_valid
      = Inl (Err created_missing)
   \<and> verifySignatureOfRequest sfv (platform_at 1700000000000)
        ''sig1=(\"@method\");keyid=\"test-key-id\"'' ''sig1=:AQIDBAUGBwgJAA==:'' ''sig1''
        [Name ''@method''] [''keyid''] 300 scenario_request always_valid
      = Inl (Err created_missing)
   \<and> check_required_params [''keyid'', ''created''] [(''keyid'', BString ''test-key-id'')]
      = check_created (platform_at 1700000000000) [(''keyid'', BString ''test-key-id'')] 300"
  by code_simp

subsection \<open>Arithmetic on doubles\<close>




















subsection \<open>Freshness\<close>




subsection \<open>Required inputs\<close>

lemma matches_with_parameters:
  "matches (Parameterized c parameters) (v, Some ps)
   = Inr (v = c \<and> (\<forall>(k, x)\<in>set parameters. \<exists>y. map_of ps k = Some y \<and> strict_equal y x))"
  by (auto simp add: list_all_iff split: option.splits)

lemma find_input_without_throw:
  "\<forall>it\<in>set items. \<exists>b. matches input it = Inr b
   \<Longrightarrow> find_input input items = Inr (\<exists>it\<in>set items. matches input it = Inr True)"
  by (induction items) auto

lemma find_input_False:
  "find_input input items = Inr False \<Longrightarrow> \<forall>it\<in>set items. matches input it = Inr False"
  by (induction items) (auto split: sum.splits if_splits)

lemma check_required_inputs_None:
  "check_required_inputs ri items = None \<longleftrightarrow> (\<forall>input\<in>set ri. find_input input items = Inr True)"
  by (induction ri) (auto split: sum.splits)

lemma check_required_inputs_found:
  "\<forall>input\<in>set found. find_input input items = Inr True
   \<Longrightarrow> check_required_inputs (found @ rest) items = check_required_inputs rest items"
  by (induction found) simp_all

lemma check_required_inputs_first_missing:
  "check_required_inputs ri items = Some (Err e)
   \<Longrightarrow> \<exists>found missing rest. ri = found @ missing # rest
         \<and> (\<forall>input\<in>set found. find_input input items = Inr True)
         \<and> find_input missing items = Inr False \<and> e = required_input_missing missing"
proof (induction ri)
  case Nil
  then show ?case by simp
next
  case (Cons input ri)
  show ?case
  proof (cases "find_input input items")
    case (Inl t)
    with Cons.prems show ?thesis by simp
  next
    case (Inr b)
    show ?thesis
    proof (cases b)
      case False
      with Inr Cons.prems have "e = required_input_missing input"
        by (simp add: required_input_missing_def validation_def)
      with Inr False have "input # ri = [] @ input # ri
         \<and> (\<forall>i\<in>set []. find_input i items = Inr True)
         \<and> find_input input items = Inr False \<and> e = required_input_missing input"
        by simp
      then show ?thesis by blast
    next
      case True
      with Inr Cons.prems have "check_required_inputs ri items = Some (Err e)"
        by simp
      from Cons.IH [OF this] obtain found missing rest where
        f: "ri = found @ missing # rest" "\<forall>i\<in>set found. find_input i items = Inr True"
          "find_input missing items = Inr False" "e = required_input_missing missing"
        by blast
      with Inr True have "input # ri = (input # found) @ missing # rest
         \<and> (\<forall>i\<in>set (input # found). find_input i items = Inr True)
         \<and> find_input missing items = Inr False \<and> e = required_input_missing missing"
        by simp
      then show ?thesis by blast
    qed
  qed
qed

text \<open>
  Claim C4, as the program has it. A required identifier that is a string matches a parsed
  entry of that name; a required identifier with parameters matches a parsed entry (with
  parameters) of the same component name on which every parameter of the required
  identifier is present with a strictly equal value, whatever other parameters the entry
  has. The check passes exactly when the search finds an entry for every required
  identifier, which, when no entry's parameters are \<^verbatim>\<open>null\<close> where they are read, is when
  some entry matches it. The check returns a validation error exactly when the search
  ends without an entry for a required identifier, having found one for each identifier
  listed before it: the error of lines 286-290 for that first identifier, which no entry
  matches, and verification fails with it.
\<close>

theorem required_inputs_match_on_listed_parameters:
  "matches (Name n) (v, po) = Inr (v = n)
   \<and> matches (Parameterized c parameters) (v, Some ps)
       = Inr (v = c \<and> (\<forall>(k, x)\<in>set parameters. \<exists>y. map_of ps k = Some y \<and> strict_equal y x))
   \<and> (check_required_inputs ri items = None
        \<longleftrightarrow> (\<forall>input\<in>set ri. find_input input items = Inr True))
   \<and> ((\<forall>it\<in>set items. \<exists>b. matches input it = Inr b)
        \<longrightarrow> (find_input input items = Inr True \<longleftrightarrow> (\<exists>it\<in>set items. matches input it = Inr True)))
   \<and> (check_required_inputs ri items = Some (Err e)
        \<longleftrightarrow> (\<exists>found missing rest. ri = found @ missing # rest
              \<and> (\<forall>input\<in>set found. find_input input items = Inr True)
              \<and> find_input missing items = Inr False
              \<and> e = required_input_missing missing))
   \<and> (find_input input items = Inr False \<longrightarrow> (\<forall>it\<in>set items. matches input it = Inr False))
   \<and> (parse_signature_input C inputText l = Inr (items, qs)
        \<and> parse_signature C signatureText l = Inr sig
        \<and> check_required_inputs ri items = Some (Err e)
      \<longrightarrow> verifySignatureOfRequest C P inputText signatureText l ri rp maxAge r verify
          = Inl (Err e))"
proof (intro conjI impI)
  show "matches (Name n) (v, po) = Inr (v = n)" by simp
  show "matches (Parameterized c parameters) (v, Some ps)
       = Inr (v = c \<and> (\<forall>(k, x)\<in>set parameters. \<exists>y. map_of ps k = Some y \<and> strict_equal y x))"
    by (rule matches_with_parameters)
  show "check_required_inputs ri items = None
        \<longleftrightarrow> (\<forall>input\<in>set ri. find_input input items = Inr True)"
    by (rule check_required_inputs_None)
  show "check_required_inputs ri items = Some (Err e)
        \<longleftrightarrow> (\<exists>found missing rest. ri = found @ missing # rest
              \<and> (\<forall>input\<in>set found. find_input input items = Inr True)
              \<and> find_input missing items = Inr False
              \<and> e = required_input_missing missing)"
  proof
    assume "check_required_inputs ri items = Some (Err e)"
    then show "\<exists>found missing rest. ri = found @ missing # rest
              \<and> (\<forall>input\<in>set found. find_input input items = Inr True)
              \<and> find_input missing items = Inr False
              \<and> e = required_input_missing missing"
      by (rule check_required_inputs_first_missing)
  next
    assume "\<exists>found missing rest. ri = found @ missing # rest
              \<and> (\<forall>input\<in>set found. find_input input items = Inr True)
              \<and> find_input missing items = Inr False
              \<and> e = required_input_missing missing"
    then obtain found missing rest where
      f: "ri = found @ missing # rest" "\<forall>input\<in>set found. find_input input items = Inr True"
        "find_input missing items = Inr False" "e = required_input_missing missing"
      by blast
    have "check_required_inputs ri items = check_required_inputs (missing # rest) items"
      using f(1) check_required_inputs_found [OF f(2)] by simp
    with f(3,4) show "check_required_inputs ri items = Some (Err e)"
      by (simp add: required_input_missing_def validation_def)
  qed
next
  assume "\<forall>it\<in>set items. \<exists>b. matches input it = Inr b"
  then show "find_input input items = Inr True \<longleftrightarrow> (\<exists>it\<in>set items. matches input it = Inr True)"
    by (simp add: find_input_without_throw)
next
  assume "find_input input items = Inr False"
  then show "\<forall>it\<in>set items. matches input it = Inr False"
    by (rule find_input_False)
next
  assume "parse_signature_input C inputText l = Inr (items, qs)
        \<and> parse_signature C signatureText l = Inr sig
        \<and> check_required_inputs ri items = Some (Err e)"
  then show "verifySignatureOfRequest C P inputText signatureText l ri rp maxAge r verify
              = Inl (Err e)"
    using verify_stops_at_required_inputs by blast
qed

theorem required_inputs_match_on_listed_parameters_witness:
  "matches (Parameterized ''@query-param'' [(''name'', BString ''param1'')])
     (''@query-param'', Some [(''name'', BString ''param1''), (''extra'', BNumber 1)]) = Inr True
   \<and> matches (Parameterized ''@query-param'' [(''name'', BString ''param1'')])
     (''@query-param'', Some [(''name'', BString ''param2'')]) = Inr False
   \<and> verifySignatureOfRequest sfv (platform_at 1700000000000)
        ''sig1=(\"@method\" \"@query-param\";name=\"param2\");created=1700000000''
        ''sig1=:AQID:'' ''sig1''
        [Name ''@method'', Parameterized ''@query-param'' [(''name'', BString ''param1'')]]
        [''created''] 300 (request_of url_param1) always_valid
      = Inl (Err (required_input_missing
                    (Parameterized ''@query-param'' [(''name'', BString ''param1'')])))
   \<and> err_context (required_input_missing
                    (Parameterized ''@query-param'' [(''name'', BString ''param1'')]))
      = Text ''Missing required input field \"[object Object]\" in signature input''
   \<and> verifySignatureOfRequest sfv (platform_at 1700000000000)
        ''sig1=(\"@method\");created=1700000000'' ''sig1=:AQID:'' ''sig1''
        [Name ''@method'', Name ''x-a'', Name ''x-b''] [''created''] 300 scenario_request always_valid
      = Inl (Err (required_input_missing (Name ''x-a'')))
   \<and> err_context (required_input_missing (Name ''x-a''))
      = Text ''Missing required input field \"x-a\" in signature input''
   \<and> required_input_missing (Name ''x-a'') \<noteq> required_input_missing (Name ''x-b'')"
proof -
  note t = required_inputs_match_on_listed_parameters
  have 1: "matches (Parameterized ''@query-param'' [(''name'', BString ''param1'')])
     (''@query-param'', Some [(''name'', BString ''param1''), (''extra'', BNumber 1)]) = Inr True"
    unfolding t [THEN conjunct2, THEN conjunct1] by simp
  have 2: "matches (Parameterized ''@query-param'' [(''name'', BString ''param1'')])
          (''@query-param'', Some [(''name'', BString ''param2'')]) = Inr False"
    unfolding t [THEN conjunct2, THEN conjunct1] by simp
  have p: "parse_signature_input sfv
             ''sig1=(\"@method\" \"@query-param\";name=\"param2\");created=1700000000'' ''sig1''
           = Inr ([(''@method'', None), (''@query-param'', Some [(''name'', BString ''param2'')])],
                  Some [(''created'', BNumber 1700000000)])"
    by code_simp
  have s: "parse_signature sfv ''sig1=:AQID:'' ''sig1'' = Inr [1, 2, 3]"
    by code_simp
  have c: "[Name ''@method'', Parameterized ''@query-param'' [(''name'', BString ''param1'')]]
           = [Name ''@method''] @ Parameterized ''@query-param'' [(''name'', BString ''param1'')] # []
         \<and> (\<forall>input\<in>set [Name ''@method'']. find_input input
               [(''@method'', None), (''@query-param'', Some [(''name'', BString ''param2'')])]
             = Inr True)
         \<and> find_input (Parameterized ''@query-param'' [(''name'', BString ''param1'')])
               [(''@method'', None), (''@query-param'', Some [(''name'', BString ''param2'')])]
             = Inr False"
    by simp
  from t [THEN conjunct2, THEN conjunct2, THEN conjunct2, THEN conjunct2, THEN conjunct1,
      of "[Name ''@method'', Parameterized ''@query-param'' [(''name'', BString ''param1'')]]"
         "[(''@method'', None), (''@query-param'', Some [(''name'', BString ''param2'')])]"
         "required_input_missing (Parameterized ''@query-param'' [(''name'', BString ''param1'')])"]
    c
  have c': "check_required_inputs
             [Name ''@method'', Parameterized ''@query-param'' [(''name'', BString ''param1'')]]
             [(''@method'', None), (''@query-param'', Some [(''name'', BString ''param2'')])]
           = Some (Err (required_input_missing
                    (Parameterized ''@query-param'' [(''name'', BString ''param1'')])))"
    by blast
  from t [THEN conjunct2, THEN conjunct2, THEN conjunct2, THEN conjunct2, THEN conjunct2,
      THEN conjunct2, THEN mp, OF conjI [OF p conjI [OF s c']],
      of "platform_at 1700000000000" "[''created'']" 300 "request_of url_param1" always_valid]
  have 3: "verifySignatureOfRequest sfv (platform_at 1700000000000)
        ''sig1=(\"@method\" \"@query-param\";name=\"param2\");created=1700000000''
        ''sig1=:AQID:'' ''sig1''
        [Name ''@method'', Parameterized ''@query-param'' [(''name'', BString ''param1'')]]
        [''created''] 300 (request_of url_param1) always_valid
      = Inl (Err (required_input_missing
                    (Parameterized ''@query-param'' [(''name'', BString ''param1'')])))"
    by blast
  have 4: "err_context (required_input_missing
                    (Parameterized ''@query-param'' [(''name'', BString ''param1'')]))
      = Text ''Missing required input field \"[object Object]\" in signature input''"
    by code_simp
  have p': "parse_signature_input sfv ''sig1=(\"@method\");created=1700000000'' ''sig1''
           = Inr ([(''@method'', None)], Some [(''created'', BNumber 1700000000)])"
    by code_simp
  have d: "[Name ''@method'', Name ''x-a'', Name ''x-b'']
           = [Name ''@method''] @ Name ''x-a'' # [Name ''x-b'']
         \<and> (\<forall>input\<in>set [Name ''@method'']. find_input input [(''@method'', None)] = Inr True)
         \<and> find_input (Name ''x-a'') [(''@method'', None)] = Inr False"
    by simp
  from t [THEN conjunct2, THEN conjunct2, THEN conjunct2, THEN conjunct2, THEN conjunct1,
      of "[Name ''@method'', Name ''x-a'', Name ''x-b'']" "[(''@method'', None)]"
         "required_input_missing (Name ''x-a'')"]
    d
  have d': "check_required_inputs [Name ''@method'', Name ''x-a'', Name ''x-b''] [(''@method'', None)]
           = Some (Err (required_input_missing (Name ''x-a'')))"
    by blast
  from t [THEN conjunct2, THEN conjunct2, THEN conjunct2, THEN conjunct2, THEN conjunct2,
      THEN conjunct2, THEN mp, OF conjI [OF p' conjI [OF s d']],
      of "platform_at 1700000000000" "[''created'']" 300 scenario_request always_valid]
  have 5: "verifySignatureOfRequest sfv (platform_at 1700000000000)
        ''sig1=(\"@method\");created=1700000000'' ''sig1=:AQID:'' ''sig1''
        [Name ''@method'', Name ''x-a'', Name ''x-b''] [''created''] 300 scenario_request always_valid
      = Inl (Err (required_input_missing (Name ''x-a'')))"
    by blast
  have 6: "err_context (required_input_missing (Name ''x-a''))
      = Text ''Missing required input field \"x-a\" in signature input''
    \<and> required_input_missing (Name ''x-a'') \<noteq> required_input_missing (Name ''x-b'')"
    by code_simp
  from 1 2 3 4 5 6 show ?thesis by blast
qed

text \<open>
  The claim as stated fails: a parsed entry with the parameters \<^verbatim>\<open>name\<close> and \<^verbatim>\<open>extra\<close>
  matches the required identifier with the parameter \<^verbatim>\<open>name\<close> alone, and verification
  succeeds.
\<close>

theorem required_inputs_counterexample:
  "matches (Parameterized ''@query-param'' [(''name'', BString ''param1'')])
     (''@query-param'', Some [(''name'', BString ''param1''), (''extra'', BNumber 1)]) = Inr True
   \<and> parse_signature_input sfv
        ''sig1=(\"@query-param\";name=\"param1\";extra=1);created=1700000000'' ''sig1''
      = Inr ([(''@query-param'', Some [(''name'', BString ''param1''), (''extra'', BNumber 1)])],
             Some [(''created'', BNumber 1700000000)])
   \<and> check_required_inputs [Parameterized ''@query-param'' [(''name'', BString ''param1'')]]
        [(''@query-param'', Some [(''name'', BString ''param1''), (''extra'', BNumber 1)])] = None
   \<and> verifySignatureOfRequest sfv (platform_at 1700000000000)
        ''sig1=(\"@query-param\";name=\"param1\";extra=1);created=1700000000''
        ''sig1=:AQID:'' ''sig1''
        [Parameterized ''@query-param'' [(''name'', BString ''param1'')]]
        [''created''] 300 (request_of url_param1) always_valid
      = Inr True"
  by code_simp

subsection \<open>The signature-params line of the rebuilt base\<close>

text \<open>
  Claim C3 does not hold of the program. For the dictionary text with the labels
  \<^verbatim>\<open>sig0\<close> and \<^verbatim>\<open>sig1\<close>, verification under \<^verbatim>\<open>sig1\<close> parses the entry of \<^verbatim>\<open>sig1\<close>, whose
  serialized form is \<^verbatim>\<open>("@method");created=1700000000\<close>, yet the last line of the rebuilt
  base carries everything after the first \<^verbatim>\<open>=\<close> of the text, the entry of \<^verbatim>\<open>sig0\<close>
  included.
\<close>

theorem params_trailer_keeps_other_labels:
  "parse_signature_input sfv
        ''sig0=(\"@path\");created=1, sig1=(\"@method\");created=1700000000'' ''sig1''
      = Inr ([(''@method'', None)], Some [(''created'', BNumber 1700000000)])
   \<and> encodeDict sfv [(''sig1'', InnerList [Item (BString ''@method'') None]
                                   (Some [(''created'', BNumber 1700000000)]))]
      = Inr ''sig1=(\"@method\");created=1700000000''
   \<and> verify_base sfv (platform_at 1700000000000) scenario_request [(''@method'', None)]
        ''sig0=(\"@path\");created=1, sig1=(\"@method\");created=1700000000''
      = Inr (''\"@method\": POST'' @ [CHR 0x0A]
             @ ''\"@signature-params\": (\"@path\");created=1, sig1=(\"@method\");created=1700000000'')
   \<and> signatureParamsValue ''sig0=(\"@path\");created=1, sig1=(\"@method\");created=1700000000''
      \<noteq> ''(\"@method\");created=1700000000''"
  by code_simp

subsection \<open>Sign, then verify\<close>














text \<open>
  The search reads a parameter of an entry without parameters that carries the name of a
  required component with parameters: a list in which such an entry comes first is not
  found in itself, one in which it comes after a matching entry is.
\<close>

lemma search_reads_null_parameters:
  "find_input (Parameterized n (p # ps)) ((n, None) # items) = Inl TypeError"
  by simp

lemma self_matching_in_order:
  "\<not> self_matching [Name n, Parameterized n [(k, BString v)]]"
  "self_matching [Parameterized n [(k, BString v)], Name n]"
  by (simp_all add: self_matching_def written_def)

text \<open>
  On the codec \<open>sfv\<close>, which reads an item without parameters back with \<^verbatim>\<open>null\<close>,
  signing over such a list succeeds and verifying the result is rejected with the
  \<^verbatim>\<open>TypeError\<close> of line 284.
\<close>

lemma parameterless_first_is_rejected:
  "createSignatureForRequest sfv (platform_at 1700000000000)
       [Name ''content-type'', Parameterized ''content-type'' [(''k'', BString ''v'')]] ''sig1''
       scenario_params scenario_request sign_123
     = Inr \<lparr>signatureInput =
        ''sig1=(\"content-type\" \"content-type\";k=\"v\");keyid=\"test-key-id\";created=1700000000'',
      signature = ''sig1=:AQID:'',
      signatureBase =
        ''\"content-type\": application/json'' @ [CHR 0x0A]
        @ ''\"content-type\";k=\"v\": application/json'' @ [CHR 0x0A]
        @ ''\"@signature-params\": (\"content-type\" \"content-type\";k=\"v\");keyid=\"test-key-id\";created=1700000000''\<rparr>
   \<and> verifySignatureOfRequest sfv (platform_at 1700000000000)
        ''sig1=(\"content-type\" \"content-type\";k=\"v\");keyid=\"test-key-id\";created=1700000000''
        ''sig1=:AQID:'' ''sig1''
        [Name ''content-type'', Parameterized ''content-type'' [(''k'', BString ''v'')]]
        [''keyid'', ''created''] 300 scenario_request (verifier_of sign_123)
      = Inl (Rejected TypeError)"
  by code_simp

text \<open>
  A list is found in itself when the parameters of each component are an object (no key
  twice) of values that \<^verbatim>\<open>===\<close> finds equal to their copies, and no component without
  parameters shares its name with one that has some.
\<close>

lemma found_in_own:
  assumes "distinct (map fst ps)" and "list_all (\<lambda>(k, v). strict_equal v v) ps"
  shows "list_all (found_in ps) ps"
  unfolding list_all_iff
proof
  fix kv assume m: "kv \<in> set ps"
  obtain k v where kv: "kv = (k, v)" by (cases kv)
  with m assms(2) have "strict_equal v v" by (auto simp add: list_all_iff)
  with assms(1) m kv show "found_in ps kv" by simp
qed

lemma self_matching_sufficient:
  assumes own: "\<forall>c\<in>set L. distinct (map fst (component_params c))
                  \<and> list_all (\<lambda>(k, v). strict_equal v v) (component_params c)"
    and throughout: "\<forall>c\<in>set L. \<forall>d\<in>set L. component_name d = component_name c
                  \<and> component_params c \<noteq> [] \<longrightarrow> component_params d \<noteq> []"
  shows "self_matching L"
proof -
  have "find_input c (map written L) = Inr True" if c: "c \<in> set L" for c
  proof -
    have "list_all (found_in (component_params c)) (component_params c)"
      using own c by (simp add: found_in_own)
    then have "matches c (written c) = Inr True"
      by (cases c) (simp_all add: written_def)
    then have 1: "\<exists>it\<in>set (map written L). matches c it = Inr True"
      using c by auto
    have "\<exists>b. matches c (written d) = Inr b" if "d \<in> set L" for d
      using throughout c that by (cases c) (auto simp add: written_def)
    then have 2: "\<forall>it\<in>set (map written L). \<exists>b. matches c it = Inr b"
      by auto
    from find_input_without_throw [OF 2] 1 show ?thesis by simp
  qed
  then show ?thesis
    by (simp add: self_matching_def list_all_iff)
qed











end
